theory Spec2Isabelle
  imports Complex_Main
begin

section \<open>Python values used by MobotixControl.py\<close>

text \<open>
  A Python \<open>str\<close> is a sequence of Unicode code points, modelled as a list of naturals;
  \<open>bytes\<close> are a list of 8-bit characters (a HOL \<open>string\<close>). String literals of the
  source are written \<open>ustr ''...''\<close>.
\<close>

type_synonym pystr = "nat list"

definition ustr :: "string \<Rightarrow> pystr" where
  "ustr s = map of_char s"

text \<open>
  \<open>str.strip()\<close> and the pattern \<open>\s\<close> of \<open>re\<close> on a \<open>str\<close> use the same class of
  white space (CPython's \<open>Py_UNICODE_ISSPACE\<close>).
\<close>

definition py_isspace :: "nat \<Rightarrow> bool" where
  "py_isspace c \<longleftrightarrow>
     (0x09 \<le> c \<and> c \<le> 0x0D) \<or> (0x1C \<le> c \<and> c \<le> 0x20) \<or> c = 0x85 \<or> c = 0xA0 \<or>
     c = 0x1680 \<or> (0x2000 \<le> c \<and> c \<le> 0x200A) \<or> c = 0x2028 \<or> c = 0x2029 \<or>
     c = 0x202F \<or> c = 0x205F \<or> c = 0x3000"

definition str_strip :: "pystr \<Rightarrow> pystr" where
  "str_strip s = rev (dropWhile py_isspace (rev (dropWhile py_isspace s)))"

text \<open>
  Exceptions. \<open>Exception msg\<close> is \<open>raise Exception(f"...")\<close>, \<open>Reraised e\<close> is
  \<open>raise Exception(e)\<close>. \<open>KeyboardInterrupt\<close> stands for the exceptions that are not
  instances of \<open>Exception\<close>, which an \<open>except Exception\<close> clause does not catch.
\<close>

datatype exc =
    Exception pystr
  | Reraised exc
  | KeyError pystr
  | UnboundLocalError
  | AttributeError
  | UnicodeDecodeError
  | ValueError
  | CalledProcessError int
  | TimeoutError
  | OSError
  | KeyboardInterrupt

fun is_Exception :: "exc \<Rightarrow> bool" where
  "is_Exception KeyboardInterrupt = False"
| "is_Exception _ = True"

datatype pyval = Str pystr | NoneVal | ExcVal exc

text \<open>
  What a child process did, as the code observes it: \<open>subprocess.run\<close> returned with the
  given standard output, the 15 second \<open>timeout_decorator\<close> fired first, or
  \<open>subprocess.run\<close> itself raised.
\<close>

datatype run_result = Completed pystr | TimedOut | RunRaised exc

text \<open>A path of \<open>pathlib\<close>: the directory it lies in and its final component.\<close>

record path =
  parent :: pystr
  name :: pystr

datatype level = DEBUG | INFO | WARNING

text \<open>
  The effects of the program on the outside world, in the order they happen. \<open>Run\<close> is
  \<open>subprocess.run\<close>, \<open>Popen\<close> the start of the capture process, \<open>CloseStdout\<close> and
  \<open>Wait\<close> what leaving the \<open>with subprocess.Popen(...)\<close> block does.
  \<open>SendSignal\<close> stands for \<open>Popen.terminate\<close>, \<open>kill\<close> and \<open>send_signal\<close>.
  \<open>Log\<close> is a logging call with a plain message; the three calls that format their
  arguments have a constructor each.
\<close>

datatype effect =
    Run "pystr list"
  | Sleep real
  | Print exc
  | Log level pystr
  | LogCalling "pystr list"
  | LogRemoving path
  | LogException exc
  | Mkdir pystr
  | Popen "pystr list"
  | CloseStdout
  | Wait
  | SendSignal
  | Unlink path

text \<open>
  The camera side: what the next \<open>curl\<close> call answers, given everything done so far and
  the command line.
\<close>

type_synonym camera = "effect list \<Rightarrow> pystr list \<Rightarrow> run_result"

section \<open>class MobotixPT\<close>

record MobotixPT =
  user :: pystr
  passwd :: pystr
  ip :: pystr

definition presets :: "int \<rightharpoonup> pystr" where
  "presets = map_of [
     (1, ustr ''%FF%01%00%07%00%01%09''),
     (2, ustr ''%FF%01%00%07%00%02%0A''),
     (3, ustr ''%FF%01%00%07%00%03%0B''),
     (4, ustr ''%FF%01%00%07%00%04%0C''),
     (5, ustr ''%FF%01%00%07%00%05%0D''),
     (6, ustr ''%FF%01%00%07%00%06%0E''),
     (7, ustr ''%FF%01%00%07%00%07%0F''),
     (8, ustr ''%FF%01%00%07%00%08%10''),
     (9, ustr ''%FF%01%00%07%00%09%11''),
     (10, ustr ''%FF%01%00%07%00%10%18''),
     (11, ustr ''%FF%01%00%07%00%11%19''),
     (12, ustr ''%FF%01%00%07%00%12%1A''),
     (13, ustr ''%FF%01%00%07%00%13%1B''),
     (14, ustr ''%FF%01%00%07%00%14%1C''),
     (15, ustr ''%FF%01%00%07%00%15%1D''),
     (16, ustr ''%FF%01%00%07%00%16%1E''),
     (17, ustr ''%FF%01%00%07%00%17%1F''),
     (18, ustr ''%FF%01%00%07%00%18%20''),
     (19, ustr ''%FF%01%00%07%00%19%21''),
     (20, ustr ''%FF%01%00%07%00%20%28''),
     (21, ustr ''%FF%01%00%07%00%21%29''),
     (22, ustr ''%FF%01%00%07%00%22%2A''),
     (23, ustr ''%FF%01%00%07%00%23%2B''),
     (24, ustr ''%FF%01%00%07%00%24%2C''),
     (25, ustr ''%FF%01%00%07%00%25%2D''),
     (26, ustr ''%FF%01%00%07%00%26%2E''),
     (27, ustr ''%FF%01%00%07%00%27%2F''),
     (28, ustr ''%FF%01%00%07%00%28%30''),
     (29, ustr ''%FF%01%00%07%00%29%31''),
     (30, ustr ''%FF%01%00%07%00%30%38''),
     (31, ustr ''%FF%01%00%07%00%31%39''),
     (32, ustr ''%FF%01%00%07%00%32%3A'')]"

definition speed_codes :: "pystr \<rightharpoonup> (int \<rightharpoonup> pystr)" where
  "speed_codes = map_of [
     (ustr ''right'', map_of [
        (1, ustr ''%FF%01%00%02%01%00%04''),
        (2, ustr ''%FF%01%00%02%0F%00%12''),
        (3, ustr ''%FF%01%00%02%1F%00%22''),
        (4, ustr ''%FF%01%00%02%2F%00%32''),
        (5, ustr ''%FF%01%00%02%FF%00%02'')]),
     (ustr ''left'', map_of [
        (1, ustr ''%FF%01%00%04%01%00%06''),
        (2, ustr ''%FF%01%00%04%0F%00%14''),
        (3, ustr ''%FF%01%00%04%1F%00%24''),
        (4, ustr ''%FF%01%00%04%2F%00%34''),
        (5, ustr ''%FF%01%00%04%FF%00%04'')]),
     (ustr ''up'', map_of [
        (1, ustr ''%FF%01%00%08%00%01%0A''),
        (2, ustr ''%FF%01%00%08%00%0F%18''),
        (3, ustr ''%FF%01%00%08%00%1F%28''),
        (4, ustr ''%FF%01%00%08%00%2F%38''),
        (5, ustr ''%FF%01%00%08%00%FF%08'')]),
     (ustr ''down'', map_of [
        (1, ustr ''%FF%01%00%10%00%01%12''),
        (2, ustr ''%FF%01%00%10%00%0F%20''),
        (3, ustr ''%FF%01%00%10%00%1F%30''),
        (4, ustr ''%FF%01%00%10%00%2F%40''),
        (5, ustr ''%FF%01%00%10%00%FF%10'')])]"

text \<open>The command line built by \<open>_send_command\<close> (its local variable \<open>cmd\<close>).\<close>

definition curl_cmd :: "MobotixPT \<Rightarrow> pystr \<Rightarrow> pystr list" where
  "curl_cmd self code =
     [ustr ''curl'',
      ustr ''-u'',
      user self @ ustr '':'' @ passwd self,
      ustr ''-X'',
      ustr ''POST'',
      ustr ''http://'' @ ip self @ ustr ''/control/rcontrol?action=putrs232&rs232outtext='' @ code]"

text \<open>
  \<open>_send_command\<close>. The \<open>except subprocess.CalledProcessError\<close> clause prints the
  exception and returns it; every other exception leaves the function, among them the
  \<open>Exception\<close> raised in the \<open>try\<close> block for a body other than \<open>OK\<close> and the
  \<open>TimeoutError\<close> of the decorator.
\<close>

definition send_command :: "camera \<Rightarrow> MobotixPT \<Rightarrow> pystr \<Rightarrow> effect list \<Rightarrow> (exc + pyval) \<times> effect list" where
  "send_command curl self code w =
     (let cmd = curl_cmd self code; w' = w @ [Run cmd] in
      case curl w cmd of
        Completed stdout \<Rightarrow>
          if str_strip stdout \<noteq> ustr ''OK''
          then (Inl (Exception (ustr ''INVALID_CREDENTIALS_OR_CONNECTION_ERROR:'' @ stdout)), w')
          else (Inr (Str stdout), w')
      | TimedOut \<Rightarrow> (Inl TimeoutError, w')
      | RunRaised e \<Rightarrow>
          (case e of
             CalledProcessError rc \<Rightarrow> (Inr (ExcVal e), w' @ [Print e])
           | _ \<Rightarrow> (Inl e, w')))"

definition move_to_preset :: "camera \<Rightarrow> MobotixPT \<Rightarrow> int \<Rightarrow> effect list \<Rightarrow> (exc + pyval) \<times> effect list" where
  "move_to_preset curl self pt_id w =
     (case presets pt_id of
        Some preset_code \<Rightarrow>
          if preset_code \<noteq> [] then send_command curl self preset_code w
          else (Inr (Str (ustr ''Invalid preset ID.'')), w)
      | None \<Rightarrow> (Inr (Str (ustr ''Invalid preset ID.'')), w))"

definition stop_code :: pystr where
  "stop_code = ustr ''%FF%01%00%00%00%00%01''"

definition stop :: "camera \<Rightarrow> MobotixPT \<Rightarrow> effect list \<Rightarrow> (exc + pyval) \<times> effect list" where
  "stop curl self w = send_command curl self stop_code w"

definition remote_reset :: "camera \<Rightarrow> MobotixPT \<Rightarrow> effect list \<Rightarrow> (exc + pyval) \<times> effect list" where
  "remote_reset curl self w = send_command curl self (ustr ''%FF%01%00%0F%00%00%10'') w"

text \<open>
  \<open>move\<close>. \<open>self.speed_codes[direction]\<close> raises \<open>KeyError\<close> for a missing key, while
  \<open>.get(speed)\<close> gives \<open>None\<close>. \<open>time.sleep\<close> raises \<open>ValueError\<close> for a negative
  duration. The function has no \<open>return\<close> on the sending path, so it returns \<open>None\<close>.
\<close>

definition move :: "camera \<Rightarrow> MobotixPT \<Rightarrow> pystr \<Rightarrow> int \<Rightarrow> real \<Rightarrow> effect list \<Rightarrow> (exc + pyval) \<times> effect list" where
  "move curl self direction speed duration w =
     (case speed_codes direction of
        None \<Rightarrow> (Inl (KeyError direction), w)
      | Some table \<Rightarrow>
          (case table speed of
             Some code \<Rightarrow>
               if code \<noteq> [] then
                 (case send_command curl self code w of
                    (Inl e, w1) \<Rightarrow> (Inl e, w1)
                  | (Inr _, w1) \<Rightarrow>
                      if duration < 0 then (Inl ValueError, w1)
                      else
                        (case stop curl self (w1 @ [Sleep duration]) of
                           (Inl e, w2) \<Rightarrow> (Inl e, w2)
                         | (Inr _, w2) \<Rightarrow> (Inr NoneVal, w2)))
               else (Inr (Str (ustr ''Invalid code value for movement.'')), w)
           | None \<Rightarrow> (Inr (Str (ustr ''Invalid code value for movement.'')), w)))"

section \<open>Library functions used by MobotixImager\<close>

text \<open>
  Two facts about the interpreter that the source does not fix: the decimal digits of
  Unicode outside ASCII with their values (the pattern \<open>\d\<close> and \<open>int()\<close> accept
  them), and the limit of \<open>int()\<close> on the number of digits
  (\<open>sys.get_int_max_str_digits()\<close>: 0 for no limit, otherwise at least 640; 4300 by
  default since Python 3.11).
\<close>

record interp =
  uni_decimal :: "nat \<Rightarrow> nat option"
  int_max_str_digits :: nat

definition decimal_value :: "interp \<Rightarrow> nat \<Rightarrow> nat option" where
  "decimal_value py c =
     (if 0x30 \<le> c \<and> c \<le> 0x39 then Some (c - 0x30)
      else if c < 0x80 then None
      else uni_decimal py c)"

definition is_decimal :: "interp \<Rightarrow> nat \<Rightarrow> bool" where
  "is_decimal py c \<longleftrightarrow> decimal_value py c \<noteq> None"

text \<open>\<open>bytes.strip()\<close> removes the six ASCII white space bytes at both ends.\<close>

definition bytes_isspace :: "char \<Rightarrow> bool" where
  "bytes_isspace b \<longleftrightarrow> b \<in> set [CHR 0x20, CHR 0x09, CHR 0x0A, CHR 0x0D, CHR 0x0B, CHR 0x0C]"

definition bytes_strip :: "string \<Rightarrow> string" where
  "bytes_strip s = rev (dropWhile bytes_isspace (rev (dropWhile bytes_isspace s)))"

text \<open>
  \<open>bytes.decode()\<close>: strict UTF-8. A byte sequence that is not well formed (a stray
  continuation byte, an overlong form, a surrogate, a value above U+10FFFF, a truncated
  sequence) raises \<open>UnicodeDecodeError\<close>.
\<close>

definition cont :: "nat \<Rightarrow> bool" where
  "cont b \<longleftrightarrow> 0x80 \<le> b \<and> b \<le> 0xBF"

fun utf8 :: "nat list \<Rightarrow> pystr option" where
  "utf8 [] = Some []"
| "utf8 (b # bs) =
     (if b < 0x80 then map_option ((#) b) (utf8 bs)
      else if 0xC2 \<le> b \<and> b \<le> 0xDF then
        (case bs of
           b1 # r \<Rightarrow>
             if cont b1
             then map_option ((#) ((b - 0xC0) * 0x40 + (b1 - 0x80))) (utf8 r)
             else None
         | _ \<Rightarrow> None)
      else if 0xE0 \<le> b \<and> b \<le> 0xEF then
        (case bs of
           b1 # b2 # r \<Rightarrow>
             if (if b = 0xE0 then 0xA0 \<le> b1 \<and> b1 \<le> 0xBF
                 else if b = 0xED then 0x80 \<le> b1 \<and> b1 \<le> 0x9F
                 else cont b1) \<and> cont b2
             then map_option ((#) ((b - 0xE0) * 0x1000 + (b1 - 0x80) * 0x40 + (b2 - 0x80))) (utf8 r)
             else None
         | _ \<Rightarrow> None)
      else if 0xF0 \<le> b \<and> b \<le> 0xF4 then
        (case bs of
           b1 # b2 # b3 # r \<Rightarrow>
             if (if b = 0xF0 then 0x90 \<le> b1 \<and> b1 \<le> 0xBF
                 else if b = 0xF4 then 0x80 \<le> b1 \<and> b1 \<le> 0x8F
                 else cont b1) \<and> cont b2 \<and> cont b3
             then map_option ((#) ((b - 0xF0) * 0x40000 + (b1 - 0x80) * 0x1000
                                    + (b2 - 0x80) * 0x40 + (b3 - 0x80))) (utf8 r)
             else None
         | _ \<Rightarrow> None)
      else None)"

definition bytes_decode :: "string \<Rightarrow> exc + pystr" where
  "bytes_decode s = (case utf8 (map of_char s) of None \<Rightarrow> Inl UnicodeDecodeError | Some t \<Rightarrow> Inr t)"

text \<open>
  \<open>re.search("frame\s#(\d+)", text)\<close>: the leftmost match; \<open>\d+\<close> is greedy and
  nothing follows it, so the group is the longest run of digits after the \<open>#\<close>. The result
  is \<open>m.groups()[0]\<close>, or \<open>None\<close> when nothing matches.
\<close>

fun match_frame :: "interp \<Rightarrow> pystr \<Rightarrow> pystr option" where
  "match_frame py (f # r # a # m # e # s # h # rest) =
     (if [f, r, a, m, e] = ustr ''frame'' \<and> py_isspace s \<and> [h] = ustr ''#''
         \<and> takeWhile (is_decimal py) rest \<noteq> []
      then Some (takeWhile (is_decimal py) rest) else None)"
| "match_frame py _ = None"

fun search_frame :: "interp \<Rightarrow> pystr \<Rightarrow> pystr option" where
  "search_frame py [] = None"
| "search_frame py (c # cs) =
     (case match_frame py (c # cs) of Some g \<Rightarrow> Some g | None \<Rightarrow> search_frame py cs)"

text \<open>
  \<open>int(s)\<close> for a string of decimal digits, the only strings the group of the pattern
  holds: above the digit limit it raises \<open>ValueError\<close>.
\<close>

definition py_int :: "interp \<Rightarrow> pystr \<Rightarrow> exc + int" where
  "py_int py s =
     (if s = [] \<or> \<not> list_all (is_decimal py) s then Inl ValueError
      else if int_max_str_digits py \<noteq> 0 \<and> int_max_str_digits py < length s then Inl ValueError
      else Inr (foldl (\<lambda>n c. 10 * n + (case decimal_value py c of Some d \<Rightarrow> int d | None \<Rightarrow> 0)) 0 s))"

text \<open>\<open>str.rfind(c)\<close> for one character: the last index of \<open>c\<close>, or \<open>-1\<close>.\<close>

definition rfind :: "nat \<Rightarrow> pystr \<Rightarrow> int" where
  "rfind c s =
     (if c \<in> set s then int (length s) - 1 - int (length (takeWhile (\<lambda>x. x \<noteq> c) (rev s)))
      else - 1)"

text \<open>\<open>PurePath.suffix\<close>, \<open>stem\<close>, \<open>with_suffix\<close> and \<open>__str__\<close> (pathlib of Python 3.11).\<close>

definition suffix :: "path \<Rightarrow> pystr" where
  "suffix p =
     (let i = rfind 0x2E (name p) in
      if 0 < i \<and> i < int (length (name p)) - 1 then drop (nat i) (name p) else [])"

definition stem :: "path \<Rightarrow> pystr" where
  "stem p =
     (let i = rfind 0x2E (name p) in
      if 0 < i \<and> i < int (length (name p)) - 1 then take (nat i) (name p) else name p)"

definition with_suffix :: "path \<Rightarrow> pystr \<Rightarrow> exc + path" where
  "with_suffix p sfx =
     (if 0x2F \<in> set sfx then Inl ValueError
      else if (sfx \<noteq> [] \<and> take 1 sfx \<noteq> ustr ''.'') \<or> sfx = ustr ''.'' then Inl ValueError
      else if name p = [] then Inl ValueError
      else if suffix p = [] then Inr (p\<lparr>name := name p @ sfx\<rparr>)
      else Inr (p\<lparr>name := take (length (name p) - length (suffix p)) (name p) @ sfx\<rparr>))"

definition path_str :: "path \<Rightarrow> pystr" where
  "path_str p =
     (if parent p = ustr ''.'' then name p
      else if parent p \<noteq> [] \<and> last (parent p) = 0x2F then parent p @ name p
      else parent p @ ustr ''/'' @ name p)"

text \<open>
  The other direction: the name of the entry of the directory \<open>dir\<close> that a path string
  denotes, when it denotes one (the string is the directory, a separator where \<open>__str__\<close>
  puts one, and a name that is not empty and holds no separator).
\<close>

definition dir_prefix :: "pystr \<Rightarrow> pystr" where
  "dir_prefix dir =
     (if dir = ustr ''.'' then []
      else if dir \<noteq> [] \<and> last dir = 0x2F then dir
      else dir @ ustr ''/'')"

definition entry_of :: "pystr \<Rightarrow> pystr \<Rightarrow> pystr option" where
  "entry_of dir s =
     (let n = drop (length (dir_prefix dir)) s in
      if take (length (dir_prefix dir)) s = dir_prefix dir \<and> n \<noteq> [] \<and> 0x2F \<notin> set n
      then Some n else None)"

text \<open>
  \<open>re.search("\d+x\d+", text).group()\<close>: the leftmost match. When nothing matches,
  \<open>re.search\<close> gives \<open>None\<close> and \<open>.group()\<close> raises \<open>AttributeError\<close>.
\<close>

definition match_resolution :: "interp \<Rightarrow> pystr \<Rightarrow> pystr option" where
  "match_resolution py s =
     (let width = takeWhile (is_decimal py) s in
      case drop (length width) s of
        x # t \<Rightarrow>
          if width \<noteq> [] \<and> [x] = ustr ''x'' \<and> takeWhile (is_decimal py) t \<noteq> []
          then Some (width @ [x] @ takeWhile (is_decimal py) t) else None
      | [] \<Rightarrow> None)"

fun search_resolution :: "interp \<Rightarrow> pystr \<Rightarrow> pystr option" where
  "search_resolution py [] = None"
| "search_resolution py (c # cs) =
     (case match_resolution py (c # cs) of Some g \<Rightarrow> Some g | None \<Rightarrow> search_resolution py cs)"

section \<open>class MobotixImager\<close>

record MobotixImager =
  ip :: pystr
  user :: pystr
  password :: pystr
  workdir :: pystr
  frames :: int

text \<open>
  What one pass of the capture loop finds: \<open>select\<close> timed out after 5 seconds,
  \<open>readline\<close> returned the given bytes (none at the end of the stream), or \<open>select\<close> or
  \<open>readline\<close> raised.
\<close>

datatype event = Timeout | Readline string | Fault exc

text \<open>The exit status of a child process, or the exception of a failed start.\<close>

datatype proc_exit = Exit int | SpawnFailed exc

text \<open>
  Everything outside the program that a call of \<open>capture\<close> meets: the interpreter; whether
  \<open>mkdir\<close> and \<open>Popen\<close> raise; what the capture process writes to its standard output,
  as a finite prefix of the passes of the loop; and the converter, as the exit status of
  \<open>ffmpeg\<close> for a command line.
\<close>

record environment =
  python :: interp
  mkdir_raises :: "exc option"
  popen_raises :: "exc option"
  stdout_events :: "event list"
  ffmpeg :: "pystr list \<Rightarrow> proc_exit"

text \<open>
  The state: the names of the entries of the working directory, in the order
  \<open>os.scandir\<close> lists them, and the effects so far.
\<close>

record world =
  files :: "pystr list"
  trace :: "effect list"

definition emit :: "effect list \<Rightarrow> world \<Rightarrow> world" where
  "emit es w = w\<lparr>trace := trace w @ es\<rparr>"

text \<open>
  How a piece of code ends: it returns a value, it raises, or (the capture loop only) it
  is still polling when the observed prefix of the output ends.
\<close>

datatype 'a outcome = Returned 'a | Raised exc | Polling

definition extract_resolution :: "interp \<Rightarrow> path \<Rightarrow> exc + pystr" where
  "extract_resolution py p =
     (case search_resolution py (stem p) of None \<Rightarrow> Inl AttributeError | Some g \<Rightarrow> Inr g)"

text \<open>The command line that \<open>convert_rgb_to_jpg\<close> passes to \<open>subprocess.run\<close>.\<close>

definition ffmpeg_cmd :: "pystr \<Rightarrow> path \<Rightarrow> path \<Rightarrow> pystr list" where
  "ffmpeg_cmd image_dims fname_rgb fname_jpg =
     [ustr ''ffmpeg'',
      ustr ''-f'',
      ustr ''rawvideo'',
      ustr ''-pixel_format'',
      ustr ''bgra'',
      ustr ''-video_size'',
      image_dims,
      ustr ''-i'',
      path_str fname_rgb,
      path_str fname_jpg]"

text \<open>
  The converter is outside the program; its contract is part of the model. The output
  file of an \<open>ffmpeg\<close> command line is its last argument. With exit status 0 the
  converter has written that file and has left every other file alone: the file joins the
  listed directory \<open>dir\<close> when its path denotes an entry of it.
\<close>

definition output_file :: "pystr list \<Rightarrow> pystr option" where
  "output_file cmd = (if length cmd < 2 then None else Some (last cmd))"

definition written :: "pystr \<Rightarrow> pystr list \<Rightarrow> pystr list \<Rightarrow> pystr list" where
  "written dir cmd fs =
     (case output_file cmd of
        None \<Rightarrow> fs
      | Some out \<Rightarrow> (case entry_of dir out of None \<Rightarrow> fs | Some n \<Rightarrow> List.insert n fs))"

text \<open>
  \<open>convert_rgb_to_jpg\<close>. \<open>subprocess.run(..., check=True)\<close> raises
  \<open>CalledProcessError\<close> for an exit status other than 0. The state lists the directory
  that \<open>fname_rgb\<close> lies in. \<open>unlink\<close> raises \<open>FileNotFoundError\<close> (an \<open>OSError\<close>)
  when the file is not there.
\<close>

definition convert_rgb_to_jpg :: "environment \<Rightarrow> path \<Rightarrow> world \<Rightarrow> (exc + path) \<times> world" where
  "convert_rgb_to_jpg env fname_rgb w =
     (case with_suffix fname_rgb (ustr ''.jpg'') of
        Inl e \<Rightarrow> (Inl e, w)
      | Inr fname_jpg \<Rightarrow>
          (case extract_resolution (python env) fname_rgb of
             Inl e \<Rightarrow> (Inl e, w)
           | Inr image_dims \<Rightarrow>
               (let cmd = ffmpeg_cmd image_dims fname_rgb fname_jpg;
                    w1 = emit [Run cmd] w in
                case ffmpeg env cmd of
                  SpawnFailed e \<Rightarrow> (Inl e, w1)
                | Exit rc \<Rightarrow>
                    if rc \<noteq> 0 then (Inl (CalledProcessError rc), w1)
                    else
                      (let w2 = emit [LogRemoving fname_rgb]
                                  (w1\<lparr>files := written (parent fname_rgb) cmd (files w1)\<rparr>) in
                       if name fname_rgb \<in> set (files w2)
                       then (Inr fname_jpg,
                             emit [Unlink fname_rgb]
                               (w2\<lparr>files := removeAll (name fname_rgb) (files w2)\<rparr>))
                       else (Inl OSError, w2)))))"

text \<open>
  One pass of the \<open>while True\<close> loop of \<open>get_camera_frames\<close>: what it logs and how it
  ends (\<open>continue\<close> or the end of the body, \<open>return\<close>, or an exception).
\<close>

datatype control = Continue | Return | Raise exc

definition loop_body :: "interp \<Rightarrow> int \<Rightarrow> event \<Rightarrow> control \<times> effect list" where
  "loop_body py target ev =
     (case ev of
        Timeout \<Rightarrow> (Continue, [Log WARNING (ustr ''Timeout waiting for camera interface output'')])
      | Fault e \<Rightarrow> (Raise e, [])
      | Readline output \<Rightarrow>
          if output = [] then (Continue, [Log WARNING (ustr ''No data from camera interface output'')])
          else
            (case bytes_decode (bytes_strip output) of
               Inl e \<Rightarrow> (Raise e, [])
             | Inr text \<Rightarrow>
                 (case search_frame py text of
                    None \<Rightarrow> (Continue, [Log INFO text])
                  | Some g \<Rightarrow>
                      (case py_int py g of
                         Inl e \<Rightarrow> (Raise e, [Log INFO text])
                       | Inr n \<Rightarrow>
                           if n > target
                           then (Return, [Log INFO text,
                                          Log INFO (ustr ''Max frame count reached, closing camera capture'')])
                           else (Continue, [Log INFO text])))))"

text \<open>
  The loop over the passes. It gives how the loop ended, the passes it did not consume,
  and the effects.
\<close>

fun read_loop :: "interp \<Rightarrow> int \<Rightarrow> event list \<Rightarrow> effect list \<Rightarrow> unit outcome \<times> event list \<times> effect list" where
  "read_loop py target [] t = (Polling, [], t)"
| "read_loop py target (ev # evs) t =
     (case loop_body py target ev of
        (Continue, l) \<Rightarrow> read_loop py target evs (t @ l)
      | (Return, l) \<Rightarrow> (Returned (), evs, t @ l)
      | (Raise e, l) \<Rightarrow> (Raised e, evs, t @ l))"

text \<open>
  \<open>get_camera_frames\<close>. Leaving the \<open>with\<close> block, by \<open>return\<close> or by an exception,
  closes the pipe and waits for the process; how long the process takes to end is not
  part of the model.
\<close>

definition get_camera_frames :: "environment \<Rightarrow> MobotixImager \<Rightarrow> effect list \<Rightarrow> unit outcome \<times> event list \<times> effect list" where
  "get_camera_frames env self t =
     (let cmd = [ustr ''/thermal-raw'',
                 ustr ''--url'',
                 ip self,
                 ustr ''--user'',
                 user self,
                 ustr ''--password'',
                 password self,
                 ustr ''--dir'',
                 workdir self];
          t1 = t @ [LogCalling cmd] in
      case popen_raises env of
        Some e \<Rightarrow> (Raised e, stdout_events env, t1)
      | None \<Rightarrow>
          (case read_loop (python env) (frames self) (stdout_events env) (t1 @ [Popen cmd]) of
             (Polling, rest, t2) \<Rightarrow> (Polling, rest, t2)
           | (r, rest, t2) \<Rightarrow> (r, rest, t2 @ [CloseStdout, Wait])))"

text \<open>
  The \<open>for\<close> loop of \<open>capture\<close> over the entries that \<open>glob("*")\<close> listed. The loop
  variable \<open>tspath\<close> is unbound (\<open>None\<close> here) until the first pass binds it.
\<close>

fun convert_all :: "environment \<Rightarrow> path list \<Rightarrow> path option \<Rightarrow> world \<Rightarrow> (exc + path option) \<times> world" where
  "convert_all env [] tspath w = (Inr tspath, w)"
| "convert_all env (p # ps) tspath w =
     (if suffix p = ustr ''.rgb'' then
        (case convert_rgb_to_jpg env p w of
           (Inl e, w') \<Rightarrow> (Inl e, w')
         | (Inr jpg, w') \<Rightarrow> convert_all env ps (Some jpg) w')
      else convert_all env ps (Some p) w)"

definition glob_star :: "MobotixImager \<Rightarrow> world \<Rightarrow> path list" where
  "glob_star self w = map (\<lambda>n. \<lparr>parent = workdir self, name = n\<rparr>) (files w)"

text \<open>The second half of \<open>capture\<close>: the \<open>for\<close> loop and \<open>return tspath\<close>.\<close>

definition capture_convert :: "environment \<Rightarrow> MobotixImager \<Rightarrow> world \<Rightarrow> path outcome \<times> world" where
  "capture_convert env self w =
     (case convert_all env (glob_star self w) None w of
        (Inl e, w') \<Rightarrow> (Raised e, w')
      | (Inr None, w') \<Rightarrow> (Raised UnboundLocalError, w')
      | (Inr (Some tspath), w') \<Rightarrow> (Returned tspath, w'))"

text \<open>The body of the \<open>try\<close> statement of \<open>capture\<close>.\<close>

definition try_body :: "environment \<Rightarrow> MobotixImager \<Rightarrow> effect list \<Rightarrow> unit outcome \<times> effect list" where
  "try_body env self t =
     (let t0 = t @ [Mkdir (workdir self)] in
      case mkdir_raises env of
        Some e \<Rightarrow> (Raised e, t0)
      | None \<Rightarrow> (case get_camera_frames env self t0 of (r, rest, t1) \<Rightarrow> (r, t1)))"

text \<open>The \<open>try\<close> statement with its \<open>except Exception as e\<close> clause.\<close>

definition capture_try :: "environment \<Rightarrow> MobotixImager \<Rightarrow> effect list \<Rightarrow> unit outcome \<times> effect list" where
  "capture_try env self t =
     (case try_body env self t of
        (Raised e, t1) \<Rightarrow>
          if is_Exception e then (Raised (Reraised e), t1 @ [LogException e])
          else (Raised e, t1)
      | (r, t1) \<Rightarrow> (r, t1))"

text \<open>
  \<open>capture\<close>. The argument \<open>w\<close> holds the effects so far and the entries the working
  directory has once the capture process has written its frames.
\<close>

definition capture :: "environment \<Rightarrow> MobotixImager \<Rightarrow> world \<Rightarrow> path outcome \<times> world" where
  "capture env self w =
     (case capture_try env self (trace w) of
        (Returned _, t) \<Rightarrow> capture_convert env self (w\<lparr>trace := t\<rparr>)
      | (Raised e, t) \<Rightarrow> (Raised e, w\<lparr>trace := t\<rparr>)
      | (Polling, t) \<Rightarrow> (Polling, w\<lparr>trace := t\<rparr>))"

section \<open>Notions of the specification\<close>

text \<open>
  The wire format of a command: a sequence of bytes, each written as \<open>%\<close> and two upper
  case hexadecimal digits. \<open>wire_bytes\<close> reads the bytes off such a string.
\<close>

definition hex_digit :: "nat \<Rightarrow> nat option" where
  "hex_digit c =
     (if 0x30 \<le> c \<and> c \<le> 0x39 then Some (c - 0x30)
      else if 0x41 \<le> c \<and> c \<le> 0x46 then Some (c - 0x37)
      else None)"

fun wire_bytes :: "pystr \<Rightarrow> nat list option" where
  "wire_bytes [] = Some []"
| "wire_bytes (p # h # l # rest) =
     (if [p] = ustr ''%'' then
        (case (hex_digit h, hex_digit l, wire_bytes rest) of
           (Some a, Some b, Some bs) \<Rightarrow> Some ((16 * a + b) # bs)
         | _ \<Rightarrow> None)
      else None)"
| "wire_bytes _ = None"

text \<open>
  The frame number \<open>N\<close> of a line of output that matches \<open>frame #<N>\<close>, as the loop
  computes it: the line stripped and decoded, the pattern searched, the group converted.
\<close>

definition frame_number :: "interp \<Rightarrow> string \<Rightarrow> int option" where
  "frame_number py output =
     (case bytes_decode (bytes_strip output) of
        Inl e \<Rightarrow> None
      | Inr text \<Rightarrow>
          (case search_frame py text of
             None \<Rightarrow> None
           | Some g \<Rightarrow> (case py_int py g of Inl e \<Rightarrow> None | Inr n \<Rightarrow> Some n)))"

text \<open>A pass of the loop reads a line whose frame number exceeds the target.\<close>

definition reaches_target :: "interp \<Rightarrow> int \<Rightarrow> event \<Rightarrow> bool" where
  "reaches_target py target ev =
     (case ev of
        Readline output \<Rightarrow> (case frame_number py output of Some n \<Rightarrow> n > target | None \<Rightarrow> False)
      | _ \<Rightarrow> False)"

text \<open>A pass of the loop raises.\<close>

definition raises :: "interp \<Rightarrow> int \<Rightarrow> event \<Rightarrow> bool" where
  "raises py target ev = (case fst (loop_body py target ev) of Raise e \<Rightarrow> True | _ \<Rightarrow> False)"

text \<open>A stall: no data within the read timeout, or a read that gives no data.\<close>

definition stall :: "event \<Rightarrow> bool" where
  "stall ev \<longleftrightarrow> ev = Timeout \<or> ev = Readline []"

text \<open>
  The first half of \<open>capture\<close> raises \<open>e\<close>: creating the working directory does,
  or starting the capture process does, or a pass of the loop that reads its output does.
\<close>

definition capture_phase_raises :: "environment \<Rightarrow> MobotixImager \<Rightarrow> exc \<Rightarrow> bool" where
  "capture_phase_raises env self e \<longleftrightarrow>
     mkdir_raises env = Some e
     \<or> (mkdir_raises env = None \<and> popen_raises env = Some e)
     \<or> (mkdir_raises env = None \<and> popen_raises env = None
         \<and> fst (read_loop (python env) (frames self) (stdout_events env) []) = Raised e)"

text \<open>
  What the converter reports for a raw frame: the exit status of \<open>ffmpeg\<close> for the
  command line that \<open>convert_rgb_to_jpg\<close> builds, or nothing when the code raises
  before it runs the converter. The converter succeeds when this is \<open>Exit 0\<close>.
\<close>

definition converter_exit :: "environment \<Rightarrow> path \<Rightarrow> proc_exit option" where
  "converter_exit env p =
     (case with_suffix p (ustr ''.jpg'') of
        Inl e \<Rightarrow> None
      | Inr jpg \<Rightarrow>
          (case extract_resolution (python env) p of
             Inl e \<Rightarrow> None
           | Inr dims \<Rightarrow> Some (ffmpeg env (ffmpeg_cmd dims p jpg))))"

section \<open>Concrete inputs\<close>

definition example_pt :: MobotixPT where
  "example_pt = \<lparr>MobotixPT.user = ustr ''admin'', passwd = ustr ''secret'', MobotixPT.ip = ustr ''10.31.81.16''\<rparr>"

definition camera_ok :: camera where
  "camera_ok h cmd = Completed (ustr ''OK'' @ [0x0D, 0x0A])"

definition camera_first_send_fails :: camera where
  "camera_first_send_fails h cmd = (if h = [] then Completed [] else Completed (ustr ''OK''))"

definition example_py :: interp where
  "example_py = \<lparr>uni_decimal = (\<lambda>c. None), int_max_str_digits = 4300\<rparr>"

definition example_imager :: MobotixImager where
  "example_imager =
     \<lparr>ip = ustr ''10.31.81.16'', user = ustr ''admin'', password = ustr ''secret'',
      workdir = ustr ''/data'', frames = 1\<rparr>"

definition ffmpeg_ok :: "pystr list \<Rightarrow> proc_exit" where
  "ffmpeg_ok cmd = Exit 0"

definition ffmpeg_fails :: "pystr list \<Rightarrow> proc_exit" where
  "ffmpeg_fails cmd = Exit 1"

definition example_env :: environment where
  "example_env =
     \<lparr>python = example_py, mkdir_raises = None, popen_raises = None,
      stdout_events = [Timeout, Readline ''frame #1'', Readline [], Readline ''frame #2'', Readline ''frame #3''],
      ffmpeg = ffmpeg_ok\<rparr>"

definition stalled_env :: environment where
  "stalled_env = example_env\<lparr>stdout_events := [Timeout, Timeout, Readline [], Timeout]\<rparr>"

definition broken_env :: environment where
  "broken_env = example_env\<lparr>stdout_events := [Timeout, Readline (''frame '' @ [CHR 0xFF]), Readline ''frame #9'']\<rparr>"

definition example_raw :: path where
  "example_raw = \<lparr>parent = ustr ''/data'', name = ustr ''1000_cam_320x240.rgb''\<rparr>"

definition example_dir :: world where
  "example_dir = \<lparr>files = [ustr ''1000_cam_320x240.rgb'', ustr ''notes.txt''], trace = []\<rparr>"

definition failing_env :: environment where
  "failing_env = example_env\<lparr>ffmpeg := ffmpeg_fails\<rparr>"

definition raw_dir :: world where
  "raw_dir = \<lparr>files = [ustr ''notes.txt'', ustr ''1000_cam_320x240.rgb'', ustr ''1001_cam_320x240.rgb''], trace = []\<rparr>"

section \<open>The command tables\<close>

lemma presets_inside:
  "\<forall>i \<in> set [1..32].
     (case presets i of
        None \<Rightarrow> False
      | Some code \<Rightarrow>
          code \<noteq> [] \<and>
          wire_bytes code =
            Some [0xFF, 0x01, 0x00, 0x07, 0x00, nat (16 * (i div 10) + i mod 10),
                  nat ((0x01 + 0x00 + 0x07 + 0x00 + (16 * (i div 10) + i mod 10)) mod 256)])"
  by code_simp

lemma presets_outside: "i < 1 \<or> 32 < i \<Longrightarrow> presets i = None"
  by (auto simp add: presets_def)

lemma speed_codes_inside:
  "\<forall>d \<in> set [ustr ''right'', ustr ''left'', ustr ''up'', ustr ''down''].
     (case speed_codes d of
        None \<Rightarrow> False
      | Some table \<Rightarrow>
          (\<forall>s \<in> set [1..5].
             (case table s of
                None \<Rightarrow> False
              | Some code \<Rightarrow> code \<noteq> [] \<and> code \<noteq> stop_code)))"
  by code_simp

lemma speed_codes_dom: "speed_codes d = Some table \<Longrightarrow> d \<in> set [ustr ''right'', ustr ''left'', ustr ''up'', ustr ''down'']"
  unfolding speed_codes_def by (auto split: if_splits)

lemma speed_table_dom: "speed_codes d = Some table \<Longrightarrow> table s = Some code \<Longrightarrow> s \<in> set [1..5]"
  unfolding speed_codes_def by (auto split: if_splits)

lemma speed_code_facts:
  assumes "speed_codes direction = Some table" and "table speed = Some code"
  shows "code \<noteq> [] \<and> code \<noteq> stop_code"
proof -
  have d: "direction \<in> set [ustr ''right'', ustr ''left'', ustr ''up'', ustr ''down'']"
    using assms(1) by (rule speed_codes_dom)
  have s: "speed \<in> set [1..5]"
    using assms by (rule speed_table_dom)
  from speed_codes_inside d assms(1) have
    "\<forall>s \<in> set [1..5]. (case table s of None \<Rightarrow> False | Some code \<Rightarrow> code \<noteq> [] \<and> code \<noteq> stop_code)"
    by fastforce
  with s assms(2) show ?thesis by fastforce
qed

section \<open>Command transport\<close>

text \<open>
  Claim C6. For every response body, \<open>_send_command\<close> succeeds and returns the body if
  and only if the body, with the white space around it removed, is exactly \<open>OK\<close>; for
  every other body it raises the exception that carries the body, the invalid response
  error. Either way exactly one request has been issued.
\<close>

theorem send_command_ack_iff_OK:
  assumes "curl w (curl_cmd self code) = Completed body"
  shows "(fst (send_command curl self code w) = Inr (Str body)) = (str_strip body = ustr ''OK'')
       \<and> (str_strip body \<noteq> ustr ''OK'' \<longrightarrow>
            fst (send_command curl self code w)
              = Inl (Exception (ustr ''INVALID_CREDENTIALS_OR_CONNECTION_ERROR:'' @ body)))
       \<and> snd (send_command curl self code w) = w @ [Run (curl_cmd self code)]"
  using assms by (simp add: send_command_def Let_def)

theorem send_command_ack_iff_OK_witness:
  "camera_ok [] (curl_cmd example_pt stop_code) = Completed (ustr ''OK'' @ [0x0D, 0x0A])
   \<and> str_strip (ustr ''OK'' @ [0x0D, 0x0A]) = ustr ''OK''
   \<and> fst (send_command camera_ok example_pt stop_code []) = Inr (Str (ustr ''OK'' @ [0x0D, 0x0A]))"
proof -
  have h: "camera_ok [] (curl_cmd example_pt stop_code) = Completed (ustr ''OK'' @ [0x0D, 0x0A])"
    by (simp add: camera_ok_def)
  have s: "str_strip (ustr ''OK'' @ [0x0D, 0x0A]) = ustr ''OK''"
    by (simp add: str_strip_def py_isspace_def ustr_def)
  show ?thesis
    using send_command_ack_iff_OK [of camera_ok "[]" example_pt stop_code "ustr ''OK'' @ [0x0D, 0x0A]"] h s
    by simp
qed

text \<open>The bodies \<open>ok\<close>, the empty body and \<open>ERROR\<close> are among those refused.\<close>

lemma send_command_rejects:
  "body \<in> set [ustr ''ok'', [], ustr ''ERROR'', ustr ''O K'', ustr ''OKOK''] \<Longrightarrow>
   fst (send_command (\<lambda>h c. Completed body) self code w)
     = Inl (Exception (ustr ''INVALID_CREDENTIALS_OR_CONNECTION_ERROR:'' @ body))"
  by (auto simp add: send_command_def Let_def str_strip_def py_isspace_def ustr_def)

section \<open>Presets\<close>

text \<open>
  Claim C8. For every preset identifier from 1 to 32 the table holds a command, the seven
  bytes \<open>FF 01 00 07 00 p c\<close> in the wire format, where \<open>p\<close> is the identifier with
  its two decimal digits read as hexadecimal digits and \<open>c\<close> is the sum of the five bytes
  before it modulo 256, and \<open>move_to_preset\<close> sends that command. For every other
  identifier the table has no entry and \<open>move_to_preset\<close> returns the message
  \<open>Invalid preset ID.\<close> with no request issued.
\<close>

theorem move_to_preset_table:
  "(1 \<le> pt_id \<and> pt_id \<le> 32 \<longrightarrow>
      (\<exists>code. presets pt_id = Some code
         \<and> wire_bytes code =
             Some [0xFF, 0x01, 0x00, 0x07, 0x00, nat (16 * (pt_id div 10) + pt_id mod 10),
                   nat ((0x01 + 0x00 + 0x07 + 0x00 + (16 * (pt_id div 10) + pt_id mod 10)) mod 256)]
         \<and> move_to_preset curl self pt_id w = send_command curl self code w))
   \<and> (\<not> (1 \<le> pt_id \<and> pt_id \<le> 32) \<longrightarrow>
        presets pt_id = None
        \<and> move_to_preset curl self pt_id w = (Inr (Str (ustr ''Invalid preset ID.'')), w))"
proof (cases "1 \<le> pt_id \<and> pt_id \<le> 32")
  case True
  then have "pt_id \<in> set [1..32]" by simp
  with presets_inside have
    "case presets pt_id of None \<Rightarrow> False
     | Some code \<Rightarrow> code \<noteq> [] \<and> wire_bytes code =
            Some [0xFF, 0x01, 0x00, 0x07, 0x00, nat (16 * (pt_id div 10) + pt_id mod 10),
                  nat ((0x01 + 0x00 + 0x07 + 0x00 + (16 * (pt_id div 10) + pt_id mod 10)) mod 256)]"
    by blast
  with True show ?thesis
    by (auto simp add: move_to_preset_def split: option.splits)
next
  case False
  then have "presets pt_id = None" by (intro presets_outside) linarith
  with False show ?thesis by (simp add: move_to_preset_def)
qed

theorem move_to_preset_table_witness:
  "presets 10 = Some (ustr ''%FF%01%00%07%00%10%18'')
   \<and> wire_bytes (ustr ''%FF%01%00%07%00%10%18'') = Some [0xFF, 0x01, 0x00, 0x07, 0x00, 0x10, 0x18]
   \<and> move_to_preset camera_ok example_pt 10 [] = send_command camera_ok example_pt (ustr ''%FF%01%00%07%00%10%18'') []
   \<and> move_to_preset camera_ok example_pt 0 [] = (Inr (Str (ustr ''Invalid preset ID.'')), [])
   \<and> move_to_preset camera_ok example_pt 33 [] = (Inr (Str (ustr ''Invalid preset ID.'')), [])"
proof -
  have p: "presets 10 = Some (ustr ''%FF%01%00%07%00%10%18'')"
    by (simp add: presets_def)
  show ?thesis
    using move_to_preset_table [of 10 camera_ok example_pt "[]"]
          move_to_preset_table [of 0 camera_ok example_pt "[]"]
          move_to_preset_table [of 33 camera_ok example_pt "[]"] p
    by simp
qed

section \<open>Timed moves\<close>

text \<open>
  Claim C5 says that \<open>move\<close> issues the stop command even when the send of the move
  command fails. It does not: with a camera that refuses the first request, \<open>move\<close>
  raises after the one request and the trace holds no stop command.
\<close>

theorem move_stop_counterexample:
  "speed_codes (ustr ''up'') \<noteq> None
   \<and> move camera_first_send_fails example_pt (ustr ''up'') 1 2 []
      = (Inl (Exception (ustr ''INVALID_CREDENTIALS_OR_CONNECTION_ERROR:'')),
         [Run (curl_cmd example_pt (ustr ''%FF%01%00%08%00%01%0A''))])
   \<and> Run (curl_cmd example_pt stop_code)
        \<notin> set (snd (move camera_first_send_fails example_pt (ustr ''up'') 1 2 []))"
  by (simp add: move_def speed_codes_def send_command_def camera_first_send_fails_def
        str_strip_def ustr_def curl_cmd_def stop_code_def)

text \<open>
  Claim C5, amended. For every direction and speed in the table: when the send of the move
  command returns and the duration is not negative, \<open>move\<close> sleeps for the duration and
  then issues the stop command; when the send of the move command raises, the exception
  leaves \<open>move\<close>, which has issued the move command and nothing else, and the move
  command is not the stop command.
\<close>

theorem move_stop_after_acknowledged_move:
  assumes "speed_codes direction = Some table" and "table speed = Some code"
  shows "(\<forall>v w1. send_command curl self code w = (Inr v, w1) \<and> 0 \<le> duration \<longrightarrow>
            take (length w + 1) w1 = w @ [Run (curl_cmd self code)]
            \<and> take (length w1 + 2) (snd (move curl self direction speed duration w))
                = w1 @ [Sleep duration, Run (curl_cmd self stop_code)])
       \<and> (\<forall>e w1. send_command curl self code w = (Inl e, w1) \<longrightarrow>
            move curl self direction speed duration w = (Inl e, w @ [Run (curl_cmd self code)])
            \<and> curl_cmd self code \<noteq> curl_cmd self stop_code)"
proof -
  have c: "code \<noteq> []" "code \<noteq> stop_code"
    using speed_code_facts [OF assms] by simp_all
  have t: "take (length u + 1) (snd (send_command curl self x u)) = u @ [Run (curl_cmd self x)]" for x u
    by (simp add: send_command_def Let_def split: run_result.splits exc.splits)
  have r: "send_command curl self code w = (Inl e, w1) \<Longrightarrow> w1 = w @ [Run (curl_cmd self code)]" for e w1
    by (auto simp add: send_command_def Let_def split: run_result.splits exc.splits if_splits)
  have n: "curl_cmd self code \<noteq> curl_cmd self stop_code"
    using c(2) by (simp add: curl_cmd_def)
  have a: "take (length w1 + 2) (snd (move curl self direction speed duration w))
             = w1 @ [Sleep duration, Run (curl_cmd self stop_code)]"
    if "send_command curl self code w = (Inr v, w1)" and "0 \<le> duration" for v w1
    using that assms c(1) t [of "w1 @ [Sleep duration]" stop_code]
    by (auto simp add: move_def stop_def split: prod.splits sum.splits)
  have a': "take (length w + 1) w1 = w @ [Run (curl_cmd self code)]"
    if "send_command curl self code w = (Inr v, w1)" for v w1
    using that t [of w code] by simp
  have b: "move curl self direction speed duration w = (Inl e, w @ [Run (curl_cmd self code)])"
    if "send_command curl self code w = (Inl e, w1)" for e w1
    using that assms c(1) r [of e w1] by (simp add: move_def)
  show ?thesis
  proof (intro conjI allI impI)
    fix v w1 assume "send_command curl self code w = (Inr v, w1) \<and> 0 \<le> duration"
    then show "take (length w + 1) w1 = w @ [Run (curl_cmd self code)]"
      and "take (length w1 + 2) (snd (move curl self direction speed duration w))
                = w1 @ [Sleep duration, Run (curl_cmd self stop_code)]"
      using a a' by blast+
  next
    fix e w1 assume "send_command curl self code w = (Inl e, w1)"
    then show "move curl self direction speed duration w = (Inl e, w @ [Run (curl_cmd self code)])"
      by (rule b)
  next
    show "curl_cmd self code \<noteq> curl_cmd self stop_code" by (rule n)
  qed
qed

theorem move_stop_after_acknowledged_move_witness:
  "speed_codes (ustr ''up'') \<noteq> None
   \<and> snd (move camera_ok example_pt (ustr ''up'') 1 2 [])
        = [Run (curl_cmd example_pt (ustr ''%FF%01%00%08%00%01%0A'')), Sleep 2,
           Run (curl_cmd example_pt stop_code)]
   \<and> move camera_first_send_fails example_pt (ustr ''up'') 1 2 []
        = (Inl (Exception (ustr ''INVALID_CREDENTIALS_OR_CONNECTION_ERROR:'')),
           [Run (curl_cmd example_pt (ustr ''%FF%01%00%08%00%01%0A''))])"
proof -
  define table :: "int \<rightharpoonup> pystr" where
    "table = map_of [(1, ustr ''%FF%01%00%08%00%01%0A''), (2, ustr ''%FF%01%00%08%00%0F%18''),
                     (3, ustr ''%FF%01%00%08%00%1F%28''), (4, ustr ''%FF%01%00%08%00%2F%38''),
                     (5, ustr ''%FF%01%00%08%00%FF%08'')]"
  have d: "speed_codes (ustr ''up'') = Some table"
    by (simp add: speed_codes_def table_def ustr_def)
  have s: "table 1 = Some (ustr ''%FF%01%00%08%00%01%0A'')"
    by (simp add: table_def)
  have ok: "send_command camera_ok example_pt (ustr ''%FF%01%00%08%00%01%0A'') []
              = (Inr (Str (ustr ''OK'' @ [0x0D, 0x0A])), [Run (curl_cmd example_pt (ustr ''%FF%01%00%08%00%01%0A''))])"
    by (simp add: send_command_def camera_ok_def str_strip_def py_isspace_def ustr_def)
  have bad: "send_command camera_first_send_fails example_pt (ustr ''%FF%01%00%08%00%01%0A'') []
              = (Inl (Exception (ustr ''INVALID_CREDENTIALS_OR_CONNECTION_ERROR:'')),
                 [Run (curl_cmd example_pt (ustr ''%FF%01%00%08%00%01%0A''))])"
    by (simp add: send_command_def camera_first_send_fails_def str_strip_def ustr_def)
  have len: "length (snd (move camera_ok example_pt (ustr ''up'') 1 2 [])) = 3"
    using d s by (simp add: move_def stop_def send_command_def camera_ok_def str_strip_def py_isspace_def ustr_def)
  show ?thesis
    using move_stop_after_acknowledged_move [OF d s, of camera_ok example_pt "[]" 2] ok
          move_stop_after_acknowledged_move [OF d s, of camera_first_send_fails example_pt "[]" 2] bad
          d len
    by simp
qed

text \<open>
  Claim C7 says that an invalid direction gives a not-found result that is returned, not
  thrown. For the direction \<open>diagonal\<close>, which is not a key of the speed table,
  \<open>self.speed_codes[direction]\<close> raises \<open>KeyError\<close>: \<open>move\<close> ends in an exception and
  issues no request.
\<close>

theorem move_unknown_direction_raises_KeyError:
  "speed_codes (ustr ''diagonal'') = None
   \<and> move curl self (ustr ''diagonal'') 1 0 w = (Inl (KeyError (ustr ''diagonal'')), w)"
  by (simp add: move_def speed_codes_def ustr_def)

text \<open>A speed that a direction's table lacks gives the message of the \<open>else\<close> branch.\<close>

lemma move_unknown_speed_returns_message:
  "speed_codes direction = Some table \<Longrightarrow> table speed = None \<Longrightarrow>
   move curl self direction speed duration w
     = (Inr (Str (ustr ''Invalid code value for movement.'')), w)"
  by (simp add: move_def)

section \<open>The capture loop\<close>

lemma loop_body_Return_iff: "fst (loop_body py n ev) = Return \<longleftrightarrow> reaches_target py n ev"
  by (auto simp add: loop_body_def reaches_target_def frame_number_def bytes_strip_def bytes_decode_def
      split: event.splits sum.splits option.splits if_splits)

lemma loop_body_Raise_iff: "(\<exists>e. fst (loop_body py n ev) = Raise e) \<longleftrightarrow> raises py n ev"
  by (auto simp add: raises_def split: control.splits)

lemma loop_body_cases:
  obtains (Continue) "fst (loop_body py n ev) = Continue" "\<not> reaches_target py n ev" "\<not> raises py n ev"
  | (Return) "fst (loop_body py n ev) = Return" "reaches_target py n ev" "\<not> raises py n ev"
  | (Raise) e where "fst (loop_body py n ev) = Raise e" "\<not> reaches_target py n ev" "raises py n ev"
proof (cases "fst (loop_body py n ev)")
  case Continue
  then show ?thesis using that(1) loop_body_Return_iff [of py n ev] by (simp add: raises_def)
next
  case Return
  then show ?thesis using that(2) loop_body_Return_iff [of py n ev] by (simp add: raises_def)
next
  case (Raise e)
  then show ?thesis using that(3) loop_body_Return_iff [of py n ev] by (simp add: raises_def)
qed

lemma read_loop_Cons:
  "read_loop py n (ev # evs) t =
     (case fst (loop_body py n ev) of
        Continue \<Rightarrow> read_loop py n evs (t @ snd (loop_body py n ev))
      | Return \<Rightarrow> (Returned (), evs, t @ snd (loop_body py n ev))
      | Raise e \<Rightarrow> (Raised e, evs, t @ snd (loop_body py n ev)))"
  by (cases "loop_body py n ev") (simp split: control.splits)



lemma read_loop_returns_iff:
  "fst (read_loop py n evs t) = Returned () \<longleftrightarrow>
     (\<exists>pre ev post. evs = pre @ ev # post \<and> reaches_target py n ev \<and> (\<forall>e \<in> set pre. \<not> raises py n e))"
proof (induction evs arbitrary: t)
  case Nil
  then show ?case by simp
next
  case (Cons a evs)
  show ?case
  proof (cases rule: loop_body_cases [of py n a])
    case Continue
    have "(\<exists>pre ev post. a # evs = pre @ ev # post \<and> reaches_target py n ev \<and> (\<forall>e \<in> set pre. \<not> raises py n e))
          \<longleftrightarrow> (\<exists>pre ev post. evs = pre @ ev # post \<and> reaches_target py n ev \<and> (\<forall>e \<in> set pre. \<not> raises py n e))"
      (is "?L \<longleftrightarrow> ?R")
    proof
      assume ?L
      then obtain pre ev post where h: "a # evs = pre @ ev # post" "reaches_target py n ev"
        "\<forall>e \<in> set pre. \<not> raises py n e" by blast
      show ?R
      proof (cases pre)
        case Nil
        with h Continue show ?thesis by simp
      next
        case (Cons b pre')
        with h have "evs = pre' @ ev # post" "\<forall>e \<in> set pre'. \<not> raises py n e" by simp_all
        with h(2) show ?thesis by blast
      qed
    next
      assume ?R
      then obtain pre ev post where h: "evs = pre @ ev # post" "reaches_target py n ev"
        "\<forall>e \<in> set pre. \<not> raises py n e" by blast
      then have "a # evs = (a # pre) @ ev # post" "\<forall>e \<in> set (a # pre). \<not> raises py n e"
        using Continue by simp_all
      with h(2) show ?L by blast
    qed
    with Continue Cons.IH show ?thesis
      by (simp add: read_loop_Cons del: read_loop.simps)
  next
    case Return
    then have "a # evs = [] @ a # evs \<and> reaches_target py n a \<and> (\<forall>e \<in> set []. \<not> raises py n e)"
      by simp
    then have "\<exists>pre ev post. a # evs = pre @ ev # post \<and> reaches_target py n ev \<and> (\<forall>e \<in> set pre. \<not> raises py n e)"
      by blast
    with Return show ?thesis by (simp add: read_loop_Cons del: read_loop.simps)
  next
    case (Raise e)
    have "\<not> (\<exists>pre ev post. a # evs = pre @ ev # post \<and> reaches_target py n ev \<and> (\<forall>e \<in> set pre. \<not> raises py n e))"
    proof
      assume "\<exists>pre ev post. a # evs = pre @ ev # post \<and> reaches_target py n ev \<and> (\<forall>e \<in> set pre. \<not> raises py n e)"
      then obtain pre ev post where h: "a # evs = pre @ ev # post" "reaches_target py n ev"
        "\<forall>e \<in> set pre. \<not> raises py n e" by blast
      show False
      proof (cases pre)
        case Nil
        with h Raise show ?thesis by simp
      next
        case (Cons b pre')
        with h Raise show ?thesis by simp
      qed
    qed
    with Raise show ?thesis by (simp add: read_loop_Cons del: read_loop.simps)
  qed
qed


lemma read_loop_outcome_indep:
  "fst (read_loop py n evs t) = fst (read_loop py n evs t')
   \<and> fst (snd (read_loop py n evs t)) = fst (snd (read_loop py n evs t'))"
proof (induction evs arbitrary: t t')
  case Nil
  then show ?case by simp
next
  case (Cons a evs)
  show ?case
    using Cons.IH [of "t @ snd (loop_body py n a)" "t' @ snd (loop_body py n a)"]
    by (simp add: read_loop_Cons del: read_loop.simps split: control.splits)
qed

lemma get_camera_frames_read_loop:
  assumes "popen_raises env = None"
  shows "fst (get_camera_frames env self t) = fst (read_loop (python env) (frames self) (stdout_events env) [])"
    and "fst (snd (get_camera_frames env self t)) = fst (snd (read_loop (python env) (frames self) (stdout_events env) []))"
proof -
  let ?t1 = "t @ [LogCalling [ustr ''/thermal-raw'', ustr ''--url'', ip self, ustr ''--user'', user self,
                ustr ''--password'', password self, ustr ''--dir'', workdir self],
              Popen [ustr ''/thermal-raw'', ustr ''--url'', ip self, ustr ''--user'', user self,
                ustr ''--password'', password self, ustr ''--dir'', workdir self]]"
  obtain r rest t2 where rl: "read_loop (python env) (frames self) (stdout_events env) ?t1 = (r, rest, t2)"
    by (cases "read_loop (python env) (frames self) (stdout_events env) ?t1") blast
  have g: "fst (get_camera_frames env self t) = r" "fst (snd (get_camera_frames env self t)) = rest"
    using assms rl by (simp_all add: get_camera_frames_def Let_def split: outcome.splits)
  have "fst (read_loop (python env) (frames self) (stdout_events env) []) = r"
       "fst (snd (read_loop (python env) (frames self) (stdout_events env) [])) = rest"
    using read_loop_outcome_indep [of "python env" "frames self" "stdout_events env" "[]" ?t1] rl
    by simp_all
  with g show "fst (get_camera_frames env self t) = fst (read_loop (python env) (frames self) (stdout_events env) [])"
    and "fst (snd (get_camera_frames env self t)) = fst (snd (read_loop (python env) (frames self) (stdout_events env) []))"
    by simp_all
qed




lemma stall_Continue: "stall ev \<Longrightarrow> fst (loop_body py n ev) = Continue"
  by (auto simp add: stall_def loop_body_def)

lemma read_loop_filter_stall:
  "fst (read_loop py n (filter (\<lambda>e. \<not> stall e) evs) t) = fst (read_loop py n evs t)"
proof (induction evs arbitrary: t)
  case Nil
  then show ?case by simp
next
  case (Cons a evs)
  show ?case
  proof (cases "stall a")
    case True
    then show ?thesis
      using Cons.IH [of t] stall_Continue [of a py n]
            read_loop_outcome_indep [of py n evs t "t @ snd (loop_body py n a)"]
      by (simp add: read_loop_Cons del: read_loop.simps)
  next
    case False
    then show ?thesis
      using Cons.IH [of "t @ snd (loop_body py n a)"]
      by (simp add: read_loop_Cons del: read_loop.simps split: control.splits)
  qed
qed

lemma read_loop_all_stall: "\<forall>e \<in> set evs. stall e \<Longrightarrow> fst (read_loop py n evs t) = Polling"
proof (induction evs arbitrary: t)
  case Nil
  then show ?case by simp
next
  case (Cons a evs)
  then show ?case
    using stall_Continue [of a py n] by (simp add: read_loop_Cons del: read_loop.simps)
qed

lemma read_loop_Raised:
  "fst (read_loop py n evs t) = Raised e \<Longrightarrow> \<exists>ev \<in> set evs. fst (loop_body py n ev) = Raise e"
proof (induction evs arbitrary: t)
  case Nil
  then show ?case by simp
next
  case (Cons a evs)
  then show ?case
    by (cases "fst (loop_body py n a)") (auto simp add: read_loop_Cons simp del: read_loop.simps)
qed

text \<open>
  Claim C2. A pass in which \<open>select\<close> times out, and a pass in which \<open>readline\<close> gives
  no data, each log a warning and continue. Such passes never end the loop: a run of them
  alone leaves it polling, and removing them from the output changes nothing in how
  \<open>get_camera_frames\<close> ends. When it does end, either a pass read a line whose frame
  number exceeds \<open>frames\<close>, or a pass raised the exception that leaves the function.
\<close>

theorem capture_loop_stall_never_exits:
  assumes "popen_raises env = None"
  shows "loop_body (python env) (frames self) Timeout
           = (Continue, [Log WARNING (ustr ''Timeout waiting for camera interface output'')])
       \<and> loop_body (python env) (frames self) (Readline [])
           = (Continue, [Log WARNING (ustr ''No data from camera interface output'')])
       \<and> ((\<forall>e \<in> set (stdout_events env). stall e) \<longrightarrow> fst (get_camera_frames env self t) = Polling)
       \<and> fst (get_camera_frames (env\<lparr>stdout_events := filter (\<lambda>e. \<not> stall e) (stdout_events env)\<rparr>) self t)
           = fst (get_camera_frames env self t)
       \<and> (fst (get_camera_frames env self t) = Returned () \<longrightarrow>
            (\<exists>ev \<in> set (stdout_events env). reaches_target (python env) (frames self) ev))
       \<and> (\<forall>e. fst (get_camera_frames env self t) = Raised e \<longrightarrow>
            (\<exists>ev \<in> set (stdout_events env). fst (loop_body (python env) (frames self) ev) = Raise e))"
proof (intro conjI allI impI)
  show "loop_body (python env) (frames self) Timeout
           = (Continue, [Log WARNING (ustr ''Timeout waiting for camera interface output'')])"
    by (simp add: loop_body_def)
  show "loop_body (python env) (frames self) (Readline [])
           = (Continue, [Log WARNING (ustr ''No data from camera interface output'')])"
    by (simp add: loop_body_def)
next
  assume "\<forall>e \<in> set (stdout_events env). stall e"
  then show "fst (get_camera_frames env self t) = Polling"
    using get_camera_frames_read_loop(1) [OF assms, of self t] read_loop_all_stall by simp
next
  let ?env = "env\<lparr>stdout_events := filter (\<lambda>e. \<not> stall e) (stdout_events env)\<rparr>"
  have "popen_raises ?env = None" using assms by simp
  then have "fst (get_camera_frames ?env self t)
               = fst (read_loop (python ?env) (frames self) (stdout_events ?env) [])"
    by (rule get_camera_frames_read_loop(1))
  then show "fst (get_camera_frames ?env self t) = fst (get_camera_frames env self t)"
    using get_camera_frames_read_loop(1) [OF assms, of self t] read_loop_filter_stall by simp
next
  assume "fst (get_camera_frames env self t) = Returned ()"
  then have "fst (read_loop (python env) (frames self) (stdout_events env) []) = Returned ()"
    using get_camera_frames_read_loop(1) [OF assms, of self t] by simp
  then obtain pre ev post where "stdout_events env = pre @ ev # post"
    "reaches_target (python env) (frames self) ev"
    using read_loop_returns_iff by blast
  then show "\<exists>ev \<in> set (stdout_events env). reaches_target (python env) (frames self) ev"
    by auto
next
  fix e assume "fst (get_camera_frames env self t) = Raised e"
  then have "fst (read_loop (python env) (frames self) (stdout_events env) []) = Raised e"
    using get_camera_frames_read_loop(1) [OF assms, of self t] by simp
  then show "\<exists>ev \<in> set (stdout_events env). fst (loop_body (python env) (frames self) ev) = Raise e"
    by (rule read_loop_Raised)
qed

theorem capture_loop_stall_never_exits_witness:
  "popen_raises stalled_env = None
   \<and> list_all stall (stdout_events stalled_env)
   \<and> fst (get_camera_frames stalled_env example_imager []) = Polling
   \<and> fst (get_camera_frames example_env example_imager []) = Returned ()
   \<and> fst (get_camera_frames (example_env\<lparr>stdout_events := [Readline ''frame #1'', Readline ''frame #2'', Readline ''frame #3'']\<rparr>)
            example_imager []) = Returned ()"
proof -
  have p: "popen_raises stalled_env = None" "popen_raises example_env = None"
    by (simp_all add: stalled_env_def example_env_def)
  have s: "\<forall>e \<in> set (stdout_events stalled_env). stall e"
    by (simp add: stalled_env_def stall_def)
  have f: "filter (\<lambda>e. \<not> stall e) (stdout_events example_env)
             = [Readline ''frame #1'', Readline ''frame #2'', Readline ''frame #3'']"
    by (simp add: example_env_def stall_def)
  have r: "fst (get_camera_frames example_env example_imager []) = Returned ()"
    by code_simp
  note A = capture_loop_stall_never_exits [OF p(1), of example_imager "[]"]
  note B = capture_loop_stall_never_exits [OF p(2), of example_imager "[]", unfolded f]
  have "fst (get_camera_frames stalled_env example_imager []) = Polling"
    using A s by blast
  moreover have "fst (get_camera_frames (example_env\<lparr>stdout_events := [Readline ''frame #1'', Readline ''frame #2'', Readline ''frame #3'']\<rparr>)
            example_imager []) = Returned ()"
    using B r by simp
  ultimately show ?thesis using p s r by (simp add: list_all_iff)
qed

section \<open>capture\<close>

lemma try_body_raises_iff:
  "fst (try_body env self t) = Raised e \<longleftrightarrow> capture_phase_raises env self e"
proof (cases "mkdir_raises env")
  case (Some a)
  then show ?thesis by (simp add: try_body_def capture_phase_raises_def)
next
  case None
  show ?thesis
  proof (cases "popen_raises env")
    case (Some b)
    with None show ?thesis
      by (simp add: try_body_def capture_phase_raises_def get_camera_frames_def Let_def)
  next
    case N: None
    have "fst (try_body env self t) = fst (get_camera_frames env self (t @ [Mkdir (workdir self)]))"
      using None by (simp add: try_body_def Let_def split: prod.splits)
    then show ?thesis
      using None N get_camera_frames_read_loop(1) [OF N, of self "t @ [Mkdir (workdir self)]"]
      by (simp add: capture_phase_raises_def)
  qed
qed

text \<open>
  Claim C9. When creating the working directory, starting the capture process or reading
  its output raises an exception \<open>e\<close>, \<open>capture\<close> ends by raising: for an instance of
  \<open>Exception\<close> the \<open>except\<close> clause logs it and raises \<open>Exception(e)\<close>, and anything
  else passes through the \<open>try\<close> statement as it is. In no case does \<open>capture\<close> return
  a path, and it converts and removes nothing.
\<close>

theorem capture_reraises_capture_phase_exception:
  assumes "capture_phase_raises env self e"
  shows "fst (capture env self w) = Raised (if is_Exception e then Reraised e else e)
       \<and> (is_Exception e \<longrightarrow>
            trace (snd (capture env self w)) = snd (try_body env self (trace w)) @ [LogException e])
       \<and> (\<forall>p. fst (capture env self w) \<noteq> Returned p)
       \<and> files (snd (capture env self w)) = files w"
proof -
  obtain t1 where "try_body env self (trace w) = (Raised e, t1)"
    using assms try_body_raises_iff [of env self "trace w" e]
    by (cases "try_body env self (trace w)") auto
  then show ?thesis
    by (simp add: capture_def capture_try_def)
qed

theorem capture_reraises_capture_phase_exception_witness:
  "capture_phase_raises broken_env example_imager UnicodeDecodeError
   \<and> fst (capture broken_env example_imager \<lparr>files = [ustr ''1000_cam_320x240.rgb''], trace = []\<rparr>)
       = Raised (Reraised UnicodeDecodeError)
   \<and> files (snd (capture broken_env example_imager \<lparr>files = [ustr ''1000_cam_320x240.rgb''], trace = []\<rparr>))
       = [ustr ''1000_cam_320x240.rgb'']"
proof -
  have c: "capture_phase_raises broken_env example_imager UnicodeDecodeError"
    by code_simp
  show ?thesis
    using capture_reraises_capture_phase_exception
            [OF c, of "\<lparr>files = [ustr ''1000_cam_320x240.rgb''], trace = []\<rparr>"] c
    by simp
qed

text \<open>
  Claim C10. When the working directory has no entries, the \<open>for\<close> loop of \<open>capture\<close>
  never binds \<open>tspath\<close> and \<open>return tspath\<close> raises \<open>UnboundLocalError\<close>: after a
  capture phase that returned, \<open>capture\<close> raises instead of returning a path.
\<close>

theorem capture_empty_directory_raises_UnboundLocalError:
  "(files w = [] \<longrightarrow> capture_convert env self w = (Raised UnboundLocalError, w))
   \<and> (fst (try_body env self (trace w)) = Returned () \<and> files w = [] \<longrightarrow>
        fst (capture env self w) = Raised UnboundLocalError
        \<and> (\<forall>p. fst (capture env self w) \<noteq> Returned p))"
proof -
  have a: "capture_convert env self w = (Raised UnboundLocalError, w)" if "files w = []" for w
    using that by (simp add: capture_convert_def glob_star_def)
  have b: "fst (capture env self w) = Raised UnboundLocalError"
    if h1: "fst (try_body env self (trace w)) = Returned ()" and h2: "files w = []"
  proof -
    obtain t1 where "try_body env self (trace w) = (Returned (), t1)"
      using h1 by (cases "try_body env self (trace w)") auto
    then show ?thesis
      using a [of "w\<lparr>trace := t1\<rparr>"] h2 by (simp add: capture_def capture_try_def)
  qed
  show ?thesis using a b by simp
qed

theorem capture_empty_directory_raises_UnboundLocalError_witness:
  "fst (try_body example_env example_imager []) = Returned ()
   \<and> fst (capture example_env example_imager \<lparr>files = [], trace = []\<rparr>) = Raised UnboundLocalError"
proof -
  have t: "fst (try_body example_env example_imager []) = Returned ()"
    by code_simp
  show ?thesis
    using capture_empty_directory_raises_UnboundLocalError
            [of "\<lparr>files = [], trace = []\<rparr>" example_env example_imager] t
    by simp
qed

section \<open>Conversion of the raw frames\<close>

lemma rfind_append: "c \<notin> set r \<Longrightarrow> rfind c (s @ c # r) = int (length s)"
proof -
  assume a: "c \<notin> set r"
  have "takeWhile (\<lambda>x. x \<noteq> c) (rev r @ c # rev s) = rev r"
    using a by (subst takeWhile_append2) auto
  then show ?thesis by (simp add: rfind_def)
qed

lemma suffix_nonempty:
  assumes "suffix p \<noteq> []"
  shows "name p = stem p @ suffix p \<and> stem p \<noteq> [] \<and> length (stem p) + length (suffix p) = length (name p)"
proof -
  let ?i = "rfind 0x2E (name p)"
  have c: "0 < ?i \<and> ?i < int (length (name p)) - 1"
    using assms by (auto simp add: suffix_def Let_def split: if_splits)
  then have "suffix p = drop (nat ?i) (name p)" "stem p = take (nat ?i) (name p)"
    by (simp_all add: suffix_def stem_def Let_def)
  with c show ?thesis by auto
qed

lemma with_suffix_rgb:
  assumes "suffix p = ustr ''.rgb''"
  shows "with_suffix p (ustr ''.jpg'') = Inr (p\<lparr>name := stem p @ ustr ''.jpg''\<rparr>)"
proof -
  have n: "suffix p \<noteq> []" using assms by (simp add: ustr_def)
  note s = suffix_nonempty [OF n]
  have "take (length (name p) - length (suffix p)) (name p) = stem p"
    using s by (metis add_diff_cancel_right' append_eq_conv_conj)
  moreover have "name p \<noteq> []" using s by auto
  ultimately show ?thesis
    using n by (simp add: with_suffix_def) (simp add: ustr_def)
qed

lemma suffix_stem_append:
  assumes "s \<noteq> []" and "0x2E \<notin> set r" and "r \<noteq> []"
  shows "suffix (p\<lparr>name := s @ 0x2E # r\<rparr>) = 0x2E # r"
    and "stem (p\<lparr>name := s @ 0x2E # r\<rparr>) = s"
proof -
  have i: "rfind 0x2E (s @ 0x2E # r) = int (length s)"
    using assms(2) by (rule rfind_append)
  have l: "0 < length s" "0 < length r" using assms(1,3) by simp_all
  show "suffix (p\<lparr>name := s @ 0x2E # r\<rparr>) = 0x2E # r"
    using i l by (simp add: suffix_def Let_def)
  show "stem (p\<lparr>name := s @ 0x2E # r\<rparr>) = s"
    using i l by (simp add: stem_def Let_def)
qed

lemma jpg_sibling:
  assumes "suffix p = ustr ''.rgb''"
  shows "suffix (p\<lparr>name := stem p @ ustr ''.jpg''\<rparr>) = ustr ''.jpg''"
    and "stem (p\<lparr>name := stem p @ ustr ''.jpg''\<rparr>) = stem p"
    and "parent (p\<lparr>name := stem p @ ustr ''.jpg''\<rparr>) = parent p"
    and "name (p\<lparr>name := stem p @ ustr ''.jpg''\<rparr>) \<noteq> name p"
proof -
  have n: "suffix p \<noteq> []" using assms by (simp add: ustr_def)
  note s = suffix_nonempty [OF n]
  have j: "ustr ''.jpg'' = 0x2E # [0x6A, 0x70, 0x67]" by (simp add: ustr_def)
  have e: "stem p \<noteq> []" using s by simp
  show "suffix (p\<lparr>name := stem p @ ustr ''.jpg''\<rparr>) = ustr ''.jpg''"
    unfolding j by (rule suffix_stem_append(1) [OF e]) simp_all
  show "stem (p\<lparr>name := stem p @ ustr ''.jpg''\<rparr>) = stem p"
    unfolding j by (rule suffix_stem_append(2) [OF e]) simp_all
  show "parent (p\<lparr>name := stem p @ ustr ''.jpg''\<rparr>) = parent p" by simp
  have "name p = stem p @ ustr ''.rgb''" using s assms by simp
  then show "name (p\<lparr>name := stem p @ ustr ''.jpg''\<rparr>) \<noteq> name p"
    by (simp add: ustr_def)
qed

lemma converter_exit_rgb:
  assumes "suffix p = ustr ''.rgb''"
  shows "converter_exit env p =
           (case extract_resolution (python env) p of
              Inl e \<Rightarrow> None
            | Inr dims \<Rightarrow> Some (ffmpeg env (ffmpeg_cmd dims p (p\<lparr>name := stem p @ ustr ''.jpg''\<rparr>))))"
  by (simp add: converter_exit_def with_suffix_rgb [OF assms])

lemma path_str_prefix: "path_str p = dir_prefix (parent p) @ name p"
  by (simp add: path_str_def dir_prefix_def)

lemma entry_of_path_str:
  "name p \<noteq> [] \<Longrightarrow> 0x2F \<notin> set (name p) \<Longrightarrow> entry_of (parent p) (path_str p) = Some (name p)"
  by (simp add: entry_of_def path_str_prefix Let_def)

lemma written_superset: "set fs \<subseteq> set (written dir cmd fs)"
  by (auto simp add: written_def split: option.splits)

lemma jpg_sibling_entry:
  assumes "suffix p = ustr ''.rgb''" and "0x2F \<notin> set (name p)"
  shows "entry_of (parent p) (path_str (p\<lparr>name := stem p @ ustr ''.jpg''\<rparr>)) = Some (stem p @ ustr ''.jpg'')"
proof -
  have n: "suffix p \<noteq> []" using assms(1) by (simp add: ustr_def)
  have "name p = stem p @ suffix p" using suffix_nonempty [OF n] by simp
  then have "0x2F \<notin> set (stem p)" using assms(2) by (metis Un_iff set_append)
  then have "0x2F \<notin> set (name (p\<lparr>name := stem p @ ustr ''.jpg''\<rparr>))"
    by (simp add: ustr_def)
  moreover have "name (p\<lparr>name := stem p @ ustr ''.jpg''\<rparr>) \<noteq> []"
    by (simp add: ustr_def)
  ultimately show ?thesis
    using entry_of_path_str [of "p\<lparr>name := stem p @ ustr ''.jpg''\<rparr>"] by simp
qed

lemma convert_trace:
  assumes "suffix p = ustr ''.rgb''" and "extract_resolution (python env) p = Inr dims"
  shows "take (Suc (length (trace w))) (trace (snd (convert_rgb_to_jpg env p w)))
           = trace w @ [Run (ffmpeg_cmd dims p (p\<lparr>name := stem p @ ustr ''.jpg''\<rparr>))]"
  using assms(2)
  by (simp add: convert_rgb_to_jpg_def with_suffix_rgb [OF assms(1)] Let_def emit_def
        split: proc_exit.splits)

lemma convert_ok:
  assumes "suffix p = ustr ''.rgb''" and "name p \<in> set (files w)"
    and "converter_exit env p = Some (Exit 0)"
  shows "fst (convert_rgb_to_jpg env p w) = Inr (p\<lparr>name := stem p @ ustr ''.jpg''\<rparr>)"
    and "\<exists>dims. files (snd (convert_rgb_to_jpg env p w))
           = removeAll (name p)
               (written (parent p) (ffmpeg_cmd dims p (p\<lparr>name := stem p @ ustr ''.jpg''\<rparr>)) (files w))"
proof -
  obtain dims where d: "extract_resolution (python env) p = Inr dims"
    and f: "ffmpeg env (ffmpeg_cmd dims p (p\<lparr>name := stem p @ ustr ''.jpg''\<rparr>)) = Exit 0"
    using assms(3) by (auto simp add: converter_exit_rgb [OF assms(1)] split: sum.splits)
  have m: "name p \<in> set (written (parent p) (ffmpeg_cmd dims p (p\<lparr>name := stem p @ ustr ''.jpg''\<rparr>)) (files w))"
    using assms(2) written_superset by blast
  show "fst (convert_rgb_to_jpg env p w) = Inr (p\<lparr>name := stem p @ ustr ''.jpg''\<rparr>)"
    using d f m by (simp add: convert_rgb_to_jpg_def with_suffix_rgb [OF assms(1)] Let_def emit_def)
  have "files (snd (convert_rgb_to_jpg env p w))
           = removeAll (name p)
               (written (parent p) (ffmpeg_cmd dims p (p\<lparr>name := stem p @ ustr ''.jpg''\<rparr>)) (files w))"
    using d f m by (simp add: convert_rgb_to_jpg_def with_suffix_rgb [OF assms(1)] Let_def emit_def)
  then show "\<exists>dims. files (snd (convert_rgb_to_jpg env p w))
           = removeAll (name p)
               (written (parent p) (ffmpeg_cmd dims p (p\<lparr>name := stem p @ ustr ''.jpg''\<rparr>)) (files w))"
    by blast
qed

lemma convert_ok_files:
  assumes "suffix p = ustr ''.rgb''" and "name p \<in> set (files w)"
    and "converter_exit env p = Some (Exit 0)" and "0x2F \<notin> set (name p)"
  shows "files (snd (convert_rgb_to_jpg env p w))
           = removeAll (name p) (List.insert (stem p @ ustr ''.jpg'') (files w))"
proof -
  have "written (parent p) (ffmpeg_cmd dims p (p\<lparr>name := stem p @ ustr ''.jpg''\<rparr>)) (files w)
          = List.insert (stem p @ ustr ''.jpg'') (files w)" for dims
    using jpg_sibling_entry [OF assms(1,4)]
    by (simp add: written_def output_file_def ffmpeg_cmd_def)
  then show ?thesis using convert_ok(2) [OF assms(1,2,3)] by auto
qed

lemma convert_not_ok:
  assumes "suffix p = ustr ''.rgb''" and "converter_exit env p \<noteq> Some (Exit 0)"
  shows "files (snd (convert_rgb_to_jpg env p w)) = files w"
    and "\<exists>e. fst (convert_rgb_to_jpg env p w) = Inl e"
    and "converter_exit env p = Some (Exit rc) \<Longrightarrow> fst (convert_rgb_to_jpg env p w) = Inl (CalledProcessError rc)"
  using assms(2)
  by (auto simp add: convert_rgb_to_jpg_def converter_exit_rgb [OF assms(1)] with_suffix_rgb [OF assms(1)]
        Let_def emit_def split: sum.splits proc_exit.splits)

text \<open>
  Claim C3. For a raw frame that is an entry of the working directory (its suffix is
  \<open>.rgb\<close>), \<open>convert_rgb_to_jpg\<close> removes the raw file if and only if the converter
  succeeds. When the converter reports an exit status other than 0, \<open>CalledProcessError\<close>
  is raised and the directory is as it was. The command line the function runs is
  \<open>ffmpeg -f rawvideo -pixel_format bgra -video_size\<close>, the resolution read off the name,
  \<open>-i\<close>, the raw file, and as output file the path in the same directory with the same
  stem and the suffix \<open>.jpg\<close>. When the converter succeeds, the function returns that
  path, and the directory is the one before with the raw file removed and the file that
  the command line names as output added.
\<close>

theorem convert_rgb_to_jpg_removes_raw_iff_converted:
  assumes "suffix fname_rgb = ustr ''.rgb''" and "name fname_rgb \<in> set (files w)"
    and "0x2F \<notin> set (name fname_rgb)"
  shows "(name fname_rgb \<notin> set (files (snd (convert_rgb_to_jpg env fname_rgb w))))
           = (converter_exit env fname_rgb = Some (Exit 0))
       \<and> (\<forall>rc. converter_exit env fname_rgb = Some (Exit rc) \<and> rc \<noteq> 0 \<longrightarrow>
            fst (convert_rgb_to_jpg env fname_rgb w) = Inl (CalledProcessError rc)
            \<and> files (snd (convert_rgb_to_jpg env fname_rgb w)) = files w)
       \<and> (converter_exit env fname_rgb = Some (Exit 0) \<longrightarrow>
            fst (convert_rgb_to_jpg env fname_rgb w) = Inr (fname_rgb\<lparr>name := stem fname_rgb @ ustr ''.jpg''\<rparr>)
            \<and> name (fname_rgb\<lparr>name := stem fname_rgb @ ustr ''.jpg''\<rparr>)
                 \<in> set (files (snd (convert_rgb_to_jpg env fname_rgb w)))
            \<and> files (snd (convert_rgb_to_jpg env fname_rgb w))
                 = removeAll (name fname_rgb) (List.insert (name (fname_rgb\<lparr>name := stem fname_rgb @ ustr ''.jpg''\<rparr>)) (files w)))
       \<and> (\<forall>dims. extract_resolution (python env) fname_rgb = Inr dims \<longrightarrow>
            converter_exit env fname_rgb
              = Some (ffmpeg env
                  [ustr ''ffmpeg'', ustr ''-f'', ustr ''rawvideo'', ustr ''-pixel_format'', ustr ''bgra'',
                   ustr ''-video_size'', dims, ustr ''-i'', path_str fname_rgb,
                   path_str (fname_rgb\<lparr>name := stem fname_rgb @ ustr ''.jpg''\<rparr>)])
            \<and> take (Suc (length (trace w))) (trace (snd (convert_rgb_to_jpg env fname_rgb w)))
                = trace w @
                  [Run
                  [ustr ''ffmpeg'', ustr ''-f'', ustr ''rawvideo'', ustr ''-pixel_format'', ustr ''bgra'',
                   ustr ''-video_size'', dims, ustr ''-i'', path_str fname_rgb,
                   path_str (fname_rgb\<lparr>name := stem fname_rgb @ ustr ''.jpg''\<rparr>)]]
            \<and> output_file
                  [ustr ''ffmpeg'', ustr ''-f'', ustr ''rawvideo'', ustr ''-pixel_format'', ustr ''bgra'',
                   ustr ''-video_size'', dims, ustr ''-i'', path_str fname_rgb,
                   path_str (fname_rgb\<lparr>name := stem fname_rgb @ ustr ''.jpg''\<rparr>)]
                = Some (path_str (fname_rgb\<lparr>name := stem fname_rgb @ ustr ''.jpg''\<rparr>))
            \<and> written (parent fname_rgb)
                  [ustr ''ffmpeg'', ustr ''-f'', ustr ''rawvideo'', ustr ''-pixel_format'', ustr ''bgra'',
                   ustr ''-video_size'', dims, ustr ''-i'', path_str fname_rgb,
                   path_str (fname_rgb\<lparr>name := stem fname_rgb @ ustr ''.jpg''\<rparr>)]
                  (files w)
                = List.insert (name (fname_rgb\<lparr>name := stem fname_rgb @ ustr ''.jpg''\<rparr>)) (files w))
       \<and> parent (fname_rgb\<lparr>name := stem fname_rgb @ ustr ''.jpg''\<rparr>) = parent fname_rgb
       \<and> stem (fname_rgb\<lparr>name := stem fname_rgb @ ustr ''.jpg''\<rparr>) = stem fname_rgb
       \<and> suffix (fname_rgb\<lparr>name := stem fname_rgb @ ustr ''.jpg''\<rparr>) = ustr ''.jpg''"
proof -
  note j = jpg_sibling [OF assms(1)]
  have a: "(name fname_rgb \<notin> set (files (snd (convert_rgb_to_jpg env fname_rgb w))))
           = (converter_exit env fname_rgb = Some (Exit 0))"
  proof (cases "converter_exit env fname_rgb = Some (Exit 0)")
    case True
    then show ?thesis using convert_ok_files [OF assms(1,2) True assms(3)] by simp
  next
    case False
    then show ?thesis using convert_not_ok(1) [OF assms(1) False, of w] assms(2) by simp
  qed
  have b: "fst (convert_rgb_to_jpg env fname_rgb w) = Inl (CalledProcessError rc)
            \<and> files (snd (convert_rgb_to_jpg env fname_rgb w)) = files w"
    if h: "converter_exit env fname_rgb = Some (Exit rc) \<and> rc \<noteq> 0" for rc
  proof -
    have "converter_exit env fname_rgb \<noteq> Some (Exit 0)" using h by auto
    then show ?thesis
      using convert_not_ok(1) [OF assms(1), of env w] convert_not_ok(3) [OF assms(1), of env rc w] h
      by simp
  qed
  have c: "fst (convert_rgb_to_jpg env fname_rgb w) = Inr (fname_rgb\<lparr>name := stem fname_rgb @ ustr ''.jpg''\<rparr>)
            \<and> name (fname_rgb\<lparr>name := stem fname_rgb @ ustr ''.jpg''\<rparr>)
                 \<in> set (files (snd (convert_rgb_to_jpg env fname_rgb w)))
            \<and> files (snd (convert_rgb_to_jpg env fname_rgb w))
                 = removeAll (name fname_rgb) (List.insert (name (fname_rgb\<lparr>name := stem fname_rgb @ ustr ''.jpg''\<rparr>)) (files w))"
    if h: "converter_exit env fname_rgb = Some (Exit 0)"
    using convert_ok(1) [OF assms(1,2) h] convert_ok_files [OF assms(1,2) h assms(3)] j(4)
    by simp
  have d: "converter_exit env fname_rgb
              = Some (ffmpeg env
                  [ustr ''ffmpeg'', ustr ''-f'', ustr ''rawvideo'', ustr ''-pixel_format'', ustr ''bgra'',
                   ustr ''-video_size'', dims, ustr ''-i'', path_str fname_rgb,
                   path_str (fname_rgb\<lparr>name := stem fname_rgb @ ustr ''.jpg''\<rparr>)])
            \<and> take (Suc (length (trace w))) (trace (snd (convert_rgb_to_jpg env fname_rgb w)))
                = trace w @
                  [Run
                  [ustr ''ffmpeg'', ustr ''-f'', ustr ''rawvideo'', ustr ''-pixel_format'', ustr ''bgra'',
                   ustr ''-video_size'', dims, ustr ''-i'', path_str fname_rgb,
                   path_str (fname_rgb\<lparr>name := stem fname_rgb @ ustr ''.jpg''\<rparr>)]]
            \<and> output_file
                  [ustr ''ffmpeg'', ustr ''-f'', ustr ''rawvideo'', ustr ''-pixel_format'', ustr ''bgra'',
                   ustr ''-video_size'', dims, ustr ''-i'', path_str fname_rgb,
                   path_str (fname_rgb\<lparr>name := stem fname_rgb @ ustr ''.jpg''\<rparr>)]
                = Some (path_str (fname_rgb\<lparr>name := stem fname_rgb @ ustr ''.jpg''\<rparr>))
            \<and> written (parent fname_rgb)
                  [ustr ''ffmpeg'', ustr ''-f'', ustr ''rawvideo'', ustr ''-pixel_format'', ustr ''bgra'',
                   ustr ''-video_size'', dims, ustr ''-i'', path_str fname_rgb,
                   path_str (fname_rgb\<lparr>name := stem fname_rgb @ ustr ''.jpg''\<rparr>)]
                  (files w)
                = List.insert (name (fname_rgb\<lparr>name := stem fname_rgb @ ustr ''.jpg''\<rparr>)) (files w)"
    if h: "extract_resolution (python env) fname_rgb = Inr dims" for dims
    using convert_trace [OF assms(1) h, of w] h jpg_sibling_entry [OF assms(1,3)]
    by (simp add: converter_exit_rgb [OF assms(1)] ffmpeg_cmd_def written_def output_file_def)
  show ?thesis using a b c d j(1,2,3) by blast
qed

theorem convert_rgb_to_jpg_removes_raw_iff_converted_witness:
  "suffix example_raw = ustr ''.rgb''
   \<and> name example_raw \<in> set (files example_dir)
   \<and> 0x2F \<notin> set (name example_raw)
   \<and> converter_exit example_env example_raw = Some (Exit 0)
   \<and> fst (convert_rgb_to_jpg example_env example_raw example_dir)
        = Inr \<lparr>parent = ustr ''/data'', name = ustr ''1000_cam_320x240.jpg''\<rparr>
   \<and> files (snd (convert_rgb_to_jpg example_env example_raw example_dir))
        = [ustr ''1000_cam_320x240.jpg'', ustr ''notes.txt'']
   \<and> take 1 (trace (snd (convert_rgb_to_jpg example_env example_raw example_dir)))
        = [Run [ustr ''ffmpeg'', ustr ''-f'', ustr ''rawvideo'', ustr ''-pixel_format'', ustr ''bgra'',
                ustr ''-video_size'', ustr ''320x240'', ustr ''-i'',
                ustr ''/data/1000_cam_320x240.rgb'', ustr ''/data/1000_cam_320x240.jpg'']]
   \<and> converter_exit failing_env example_raw = Some (Exit 1)
   \<and> fst (convert_rgb_to_jpg failing_env example_raw example_dir) = Inl (CalledProcessError 1)
   \<and> files (snd (convert_rgb_to_jpg failing_env example_raw example_dir)) = files example_dir"
proof -
  have s: "suffix example_raw = ustr ''.rgb''"
    by code_simp
  have m: "name example_raw \<in> set (files example_dir)"
    by (simp add: example_raw_def example_dir_def)
  have n: "0x2F \<notin> set (name example_raw)"
    by (simp add: example_raw_def ustr_def)
  have ok: "converter_exit example_env example_raw = Some (Exit 0)"
    by code_simp
  have bad: "converter_exit failing_env example_raw = Some (Exit 1)"
    by code_simp
  have j: "example_raw\<lparr>name := stem example_raw @ ustr ''.jpg''\<rparr>
             = \<lparr>parent = ustr ''/data'', name = ustr ''1000_cam_320x240.jpg''\<rparr>"
    by code_simp
  have x: "extract_resolution (python example_env) example_raw = Inr (ustr ''320x240'')"
    by code_simp
  have p: "path_str example_raw = ustr ''/data/1000_cam_320x240.rgb''"
          "path_str \<lparr>parent = ustr ''/data'', name = ustr ''1000_cam_320x240.jpg''\<rparr>
             = ustr ''/data/1000_cam_320x240.jpg''"
    by code_simp+
  have f: "removeAll (name example_raw) (List.insert (ustr ''1000_cam_320x240.jpg'') (files example_dir))
             = [ustr ''1000_cam_320x240.jpg'', ustr ''notes.txt'']"
    by code_simp
  have t: "trace example_dir = []"
    by (simp add: example_dir_def)
  note A = convert_rgb_to_jpg_removes_raw_iff_converted [OF s m n, of example_env, unfolded j]
  note B = convert_rgb_to_jpg_removes_raw_iff_converted [OF s m n, of failing_env]
  have "fst (convert_rgb_to_jpg example_env example_raw example_dir)
        = Inr \<lparr>parent = ustr ''/data'', name = ustr ''1000_cam_320x240.jpg''\<rparr>"
       "files (snd (convert_rgb_to_jpg example_env example_raw example_dir))
        = [ustr ''1000_cam_320x240.jpg'', ustr ''notes.txt'']"
    using A ok f by simp_all
  moreover have "take 1 (trace (snd (convert_rgb_to_jpg example_env example_raw example_dir)))
        = [Run [ustr ''ffmpeg'', ustr ''-f'', ustr ''rawvideo'', ustr ''-pixel_format'', ustr ''bgra'',
                ustr ''-video_size'', ustr ''320x240'', ustr ''-i'',
                ustr ''/data/1000_cam_320x240.rgb'', ustr ''/data/1000_cam_320x240.jpg'']]"
    using A x p t by simp
  moreover have "fst (convert_rgb_to_jpg failing_env example_raw example_dir) = Inl (CalledProcessError 1)"
       "files (snd (convert_rgb_to_jpg failing_env example_raw example_dir)) = files example_dir"
    using B bad by simp_all
  ultimately show ?thesis using s m n ok bad by simp
qed

lemma convert_all_ok:
  assumes "distinct (map name ps)" and "set (map name ps) \<subseteq> set (files w)"
    and "\<forall>p \<in> set ps. suffix p = ustr ''.rgb'' \<longrightarrow> converter_exit env p = Some (Exit 0)"
  shows "fst (convert_all env ps tspath w)
           = Inr (if ps = [] then tspath
                  else Some (if suffix (last ps) = ustr ''.rgb''
                             then (last ps)\<lparr>name := stem (last ps) @ ustr ''.jpg''\<rparr>
                             else last ps))"
  using assms
proof (induction ps arbitrary: tspath w)
  case Nil
  then show ?case by simp
next
  case (Cons p ps)
  show ?case
  proof (cases "suffix p = ustr ''.rgb''")
    case True
    have m: "name p \<in> set (files w)" using Cons.prems(2) by simp
    have c: "converter_exit env p = Some (Exit 0)" using Cons.prems(3) True by simp
    obtain r w' where cv: "convert_rgb_to_jpg env p w = (r, w')"
      by (cases "convert_rgb_to_jpg env p w") blast
    have r: "r = Inr (p\<lparr>name := stem p @ ustr ''.jpg''\<rparr>)"
      using convert_ok(1) [OF True m c] cv by simp
    obtain dims where f: "files w' = removeAll (name p)
        (written (parent p) (ffmpeg_cmd dims p (p\<lparr>name := stem p @ ustr ''.jpg''\<rparr>)) (files w))"
      using convert_ok(2) [OF True m c] cv by auto
    have sub: "set (map name ps) \<subseteq> set (files w')"
    proof
      fix n assume n: "n \<in> set (map name ps)"
      have "name p \<notin> set (map name ps)" using Cons.prems(1) by simp
      with n have "n \<noteq> name p" by blast
      moreover have "n \<in> set (files w)" using n Cons.prems(2) by (simp add: subset_iff)
      ultimately show "n \<in> set (files w')"
        using written_superset [of "files w"] by (auto simp add: f)
    qed
    have "fst (convert_all env ps (Some (p\<lparr>name := stem p @ ustr ''.jpg''\<rparr>)) w')
            = Inr (if ps = [] then Some (p\<lparr>name := stem p @ ustr ''.jpg''\<rparr>)
                   else Some (if suffix (last ps) = ustr ''.rgb''
                              then (last ps)\<lparr>name := stem (last ps) @ ustr ''.jpg''\<rparr>
                              else last ps))"
      using Cons.IH [OF _ sub] Cons.prems(1,3) by simp
    then show ?thesis using True cv r by simp
  next
    case False
    have sub: "set (map name ps) \<subseteq> set (files w)" using Cons.prems(2) by simp
    have "fst (convert_all env ps (Some p) w)
            = Inr (if ps = [] then Some p
                   else Some (if suffix (last ps) = ustr ''.rgb''
                              then (last ps)\<lparr>name := stem (last ps) @ ustr ''.jpg''\<rparr>
                              else last ps))"
      using Cons.IH [OF _ sub] Cons.prems(1,3) by simp
    then show ?thesis using False by simp
  qed
qed

text \<open>
  Claim C4 says that with at least one raw frame in the working directory the second half
  of \<open>capture\<close> returns the path of the last converted frame. With a raw frame listed
  first and the file \<open>notes.txt\<close> listed after it, the function returns the path of
  \<open>notes.txt\<close>; and when the converter fails it raises and returns no path.
\<close>

theorem capture_convert_last_entry_counterexample:
  "suffix example_raw = ustr ''.rgb''
   \<and> name example_raw \<in> set (files example_dir)
   \<and> fst (capture_convert example_env example_imager example_dir)
        = Returned \<lparr>parent = ustr ''/data'', name = ustr ''notes.txt''\<rparr>
   \<and> fst (capture_convert failing_env example_imager example_dir)
        = Raised (CalledProcessError 1)"
  by code_simp

text \<open>
  Claim C4, amended. When the entry of the working directory that is listed last is a raw
  frame and the converter succeeds on every raw frame of the directory, the second half of
  \<open>capture\<close> returns the path of the converted sibling of that last entry, the last
  frame it converted. (The names in a directory are distinct.)
\<close>

theorem capture_convert_returns_last_converted:
  assumes "files w \<noteq> []" and "distinct (files w)"
    and "suffix (last (glob_star self w)) = ustr ''.rgb''"
    and "\<forall>p \<in> set (glob_star self w). suffix p = ustr ''.rgb'' \<longrightarrow> converter_exit env p = Some (Exit 0)"
  shows "fst (capture_convert env self w)
           = Returned ((last (glob_star self w))\<lparr>name := stem (last (glob_star self w)) @ ustr ''.jpg''\<rparr>)
       \<and> with_suffix (last (glob_star self w)) (ustr ''.jpg'')
           = Inr ((last (glob_star self w))\<lparr>name := stem (last (glob_star self w)) @ ustr ''.jpg''\<rparr>)
       \<and> name (last (glob_star self w)) = last (files w)"
proof -
  have n: "map name (glob_star self w) = files w"
    by (simp add: glob_star_def comp_def)
  have ne: "glob_star self w \<noteq> []" using assms(1) by (simp add: glob_star_def)
  have "fst (convert_all env (glob_star self w) None w)
          = Inr (Some ((last (glob_star self w))\<lparr>name := stem (last (glob_star self w)) @ ustr ''.jpg''\<rparr>))"
    using convert_all_ok [of "glob_star self w" w env None] assms(2,3,4) n ne by simp
  then have a: "fst (capture_convert env self w)
           = Returned ((last (glob_star self w))\<lparr>name := stem (last (glob_star self w)) @ ustr ''.jpg''\<rparr>)"
    by (cases "convert_all env (glob_star self w) None w") (simp add: capture_convert_def)
  have "name (last (glob_star self w)) = last (map name (glob_star self w))"
    using ne by (simp add: last_map)
  then have b: "name (last (glob_star self w)) = last (files w)" using n by simp
  show ?thesis using a b with_suffix_rgb [OF assms(3)] by simp
qed

theorem capture_convert_returns_last_converted_witness:
  "files raw_dir \<noteq> [] \<and> distinct (files raw_dir)
   \<and> suffix (last (glob_star example_imager raw_dir)) = ustr ''.rgb''
   \<and> fst (capture_convert example_env example_imager raw_dir)
        = Returned \<lparr>parent = ustr ''/data'', name = ustr ''1001_cam_320x240.jpg''\<rparr>"
proof -
  have a: "files raw_dir \<noteq> []" by (simp add: raw_dir_def)
  have b: "distinct (files raw_dir)" by code_simp
  have c: "suffix (last (glob_star example_imager raw_dir)) = ustr ''.rgb''" by code_simp
  have d: "\<forall>p \<in> set (glob_star example_imager raw_dir).
             suffix p = ustr ''.rgb'' \<longrightarrow> converter_exit example_env p = Some (Exit 0)"
    by code_simp
  have j: "(last (glob_star example_imager raw_dir))\<lparr>name := stem (last (glob_star example_imager raw_dir)) @ ustr ''.jpg''\<rparr>
             = \<lparr>parent = ustr ''/data'', name = ustr ''1001_cam_320x240.jpg''\<rparr>"
    by code_simp
  show ?thesis
    using capture_convert_returns_last_converted [OF a b c d, unfolded j] a b c by simp
qed

end
